theory Spec2Isabelle
  imports Main
begin

section \<open>Python values\<close>

text \<open>
  The values of the filters of a query string, which the finders format into the text
  of a query, and the entries of the dictionary that \<open>User.to_dict\<close> returns.
\<close>

datatype pyval = PyNone | PyBool bool | PyInt int | PyStr string

text \<open>
  Exceptions that leave a function are values of this type; the code catches none, so
  an exception raised in a repository method leaves the service function and the
  request handler as it is. \<open>IntegrityError\<close>, \<open>OperationalError\<close> and
  \<open>ProgrammingError\<close> are those of \<open>sqlite3\<close>; \<open>OperationalError\<close> also stands for a
  statement that the model of SQLite below does not cover. \<open>NotModelled\<close> is no
  exception of Python: it is the result for a value that \<open>sqlite3\<close> accepts and that
  the model of the tables cannot hold.
\<close>

datatype constraint = NotNull | Unique

datatype py_error =
    TypeError
  | ValueError
  | IntegrityError constraint
  | OperationalError
  | AttributeError
  | OverflowError
  | ProgrammingError
  | NotModelled

text \<open>Python's truth test, as \<open>if x:\<close> applies it.\<close>

fun truthy :: "pyval \<Rightarrow> bool" where
  "truthy PyNone = False"
| "truthy (PyBool b) = b"
| "truthy (PyInt n) = (n \<noteq> 0)"
| "truthy (PyStr s) = (s \<noteq> [])"

subsection \<open>Decimal numerals\<close>

definition digit_char :: "nat \<Rightarrow> char" where
  "digit_char d = ''0123456789'' ! d"

definition is_digit :: "char \<Rightarrow> bool" where
  "is_digit c = (c \<in> set ''0123456789'')"

definition digit_val :: "char \<Rightarrow> nat" where
  "digit_val c = of_char c - 48"

fun dec :: "nat \<Rightarrow> string" where
  "dec n = (if n < 10 then [digit_char n] else dec (n div 10) @ [digit_char (n mod 10)])"

declare dec.simps [simp del]

definition digits_val :: "string \<Rightarrow> nat" where
  "digits_val ds = foldl (\<lambda>a c. 10 * a + digit_val c) 0 ds"

text \<open>\<open>str(n)\<close> for an integer.\<close>

definition str_int :: "int \<Rightarrow> string" where
  "str_int n = (if n < 0 then CHR ''-'' # dec (nat (- n)) else dec (nat n))"

text \<open>\<open>str(x)\<close>, which is what an f-string puts in place of \<open>{x}\<close>.\<close>

fun py_str :: "pyval \<Rightarrow> string" where
  "py_str PyNone = ''None''"
| "py_str (PyBool b) = (if b then ''True'' else ''False'')"
| "py_str (PyInt n) = str_int n"
| "py_str (PyStr s) = s"

subsection \<open>Timestamps\<close>

text \<open>
  The \<open>datetime\<close> library is not part of the repository. A datetime is modelled by
  its count of microseconds, and its ISO text by the decimal numeral of that count.
  What the code relies on is kept: \<open>fromisoformat\<close> inverts \<open>isoformat\<close>, it raises
  \<open>ValueError\<close> on text it cannot read, it reads more than one spelling of an instant
  (here: leading zeros), the text is never empty and holds no quote character, and a
  datetime object is always true. The order of two texts is the order of their
  datetimes only when the numerals have the same length.
\<close>

type_synonym datetime = nat

definition isoformat :: "datetime \<Rightarrow> string" where
  "isoformat d = dec d"

definition fromisoformat :: "string \<Rightarrow> py_error + datetime" where
  "fromisoformat s = (if s \<noteq> [] \<and> list_all is_digit s then Inr (digits_val s) else Inl ValueError)"

section \<open>The User entity and the credential helper\<close>

record User =
  uid :: "int option"
  username :: "string option"
  email :: "string option"
  password_hash :: string
  first_name :: "string option"
  last_name :: "string option"
  is_active :: bool
  u_created_at :: datetime
  u_updated_at :: "datetime option"
  last_login :: "datetime option"
  api_key :: "string option"

text \<open>\<open>User()\<close> with no arguments; \<open>now\<close> is the reading of the clock in \<open>__init__\<close>.\<close>

definition User_init :: "datetime \<Rightarrow> User" where
  "User_init now =
     \<lparr>uid = None, username = Some [], email = Some [], password_hash = [],
      first_name = Some [], last_name = Some [], is_active = True,
      u_created_at = now, u_updated_at = None, last_login = None, api_key = None\<rparr>"

text \<open>
  \<open>set_password\<close>: \<open>H\<close> is \<open>hashlib.sha256(s.encode()).hexdigest()\<close> and \<open>salt\<close> the
  value \<open>secrets.token_hex(16)\<close> returned; both come from libraries and are parameters.
\<close>

definition set_password :: "(string \<Rightarrow> string) \<Rightarrow> string \<Rightarrow> string \<Rightarrow> User \<Rightarrow> User" where
  "set_password H salt password u =
     (let pw_hash = H (password @ salt)
      in u\<lparr>password_hash := salt @ '':'' @ pw_hash\<rparr>)"

text \<open>\<open>s.split(":", 1)\<close> on a string that holds a colon: the text before the first colon
  and the text after it.\<close>

definition split_colon :: "string \<Rightarrow> string \<times> string" where
  "split_colon s = (takeWhile (\<lambda>c. c \<noteq> CHR '':'') s, tl (dropWhile (\<lambda>c. c \<noteq> CHR '':'') s))"

definition check_password :: "(string \<Rightarrow> string) \<Rightarrow> User \<Rightarrow> string \<Rightarrow> bool" where
  "check_password H u password =
     (if password_hash u = [] \<or> CHR '':'' \<notin> set (password_hash u) then False
      else (let (salt, stored_hash) = split_colon (password_hash u);
                pw_hash = H (password @ salt)
            in pw_hash = stored_hash))"

text \<open>\<open>generate_api_key\<close>: \<open>token\<close> is the value \<open>secrets.token_urlsafe(32)\<close> returned.\<close>

definition generate_api_key :: "string \<Rightarrow> User \<Rightarrow> string \<times> User" where
  "generate_api_key token u = (token, u\<lparr>api_key := Some token\<rparr>)"

definition opt_str :: "string option \<Rightarrow> pyval" where
  "opt_str x = (case x of None \<Rightarrow> PyNone | Some s \<Rightarrow> PyStr s)"

definition opt_int :: "int option \<Rightarrow> pyval" where
  "opt_int x = (case x of None \<Rightarrow> PyNone | Some n \<Rightarrow> PyInt n)"

definition opt_iso :: "datetime option \<Rightarrow> pyval" where
  "opt_iso x = (case x of None \<Rightarrow> PyNone | Some d \<Rightarrow> PyStr (isoformat d))"

definition User_to_dict :: "User \<Rightarrow> (string \<times> pyval) list" where
  "User_to_dict u =
     [(''id'', opt_int (uid u)),
      (''username'', opt_str (username u)),
      (''email'', opt_str (email u)),
      (''first_name'', opt_str (first_name u)),
      (''last_name'', opt_str (last_name u)),
      (''is_active'', PyBool (is_active u)),
      (''created_at'', PyStr (isoformat (u_created_at u))),
      (''updated_at'', opt_iso (u_updated_at u)),
      (''last_login'', opt_iso (last_login u))]"

definition keys :: "(string \<times> pyval) list \<Rightarrow> string list" where
  "keys d = map fst d"

section \<open>A fragment of SQLite\<close>

text \<open>
  The finders and \<open>Task.delete\<close> build the text of their statement with f-strings,
  so what they do is what SQLite makes of that text. The database engine is not part
  of the repository; this section models the part of its language that the
  statements of the code are written in: \<open>SELECT * FROM t [WHERE e] [ORDER BY c
  [ASC|DESC]]\<close> and \<open>UPDATE t SET c = v [WHERE e]\<close>, where \<open>e\<close> combines
  comparisons \<open>a = b\<close>, \<open>a IS [NOT] NULL\<close> and bare operands with \<open>NOT\<close>, \<open>AND\<close>
  and \<open>OR\<close> (in this order of precedence), and an operand is an integer literal, a
  string literal, \<open>NULL\<close> or a column. Keywords and names are read without regard to
  case. A statement that SQLite rejects, and a statement outside this fragment, both
  have the result \<open>None\<close>.
\<close>

datatype sqlval = SqlNull | SqlInt int | SqlText string

datatype token =
    TNum nat | TStr string | TId string | TEq | TStar | TMinus
  | KSelect | KFrom | KWhere | KAnd | KOr | KNot | KIs | KNull
  | KOrder | KBy | KAsc | KDesc | KUpdate | KSet

definition sq :: char where
  "sq = CHR 0x27"

definition is_space :: "char \<Rightarrow> bool" where
  "is_space c = (c \<in> set [CHR '' '', CHR 0x09, CHR 0x0A, CHR 0x0C, CHR 0x0D])"

definition is_alpha :: "char \<Rightarrow> bool" where
  "is_alpha c = (c \<in> set ''abcdefghijklmnopqrstuvwxyzABCDEFGHIJKLMNOPQRSTUVWXYZ_'')"

definition is_word :: "char \<Rightarrow> bool" where
  "is_word c = (is_alpha c \<or> is_digit c)"

definition lower :: "char \<Rightarrow> char" where
  "lower c = (case map_of (zip ''ABCDEFGHIJKLMNOPQRSTUVWXYZ'' ''abcdefghijklmnopqrstuvwxyz'') c of
                Some d \<Rightarrow> d | None \<Rightarrow> c)"

definition word_token :: "string \<Rightarrow> token" where
  "word_token w =
     (if w = ''select'' then KSelect else if w = ''from'' then KFrom
      else if w = ''where'' then KWhere else if w = ''and'' then KAnd
      else if w = ''or'' then KOr else if w = ''not'' then KNot
      else if w = ''is'' then KIs else if w = ''null'' then KNull
      else if w = ''order'' then KOrder else if w = ''by'' then KBy
      else if w = ''asc'' then KAsc else if w = ''desc'' then KDesc
      else if w = ''update'' then KUpdate else if w = ''set'' then KSet
      else TId w)"

text \<open>
  The rest of a string literal, after its opening quote: its text and what follows the
  closing quote. Two quotes in a row are one quote of the text. A query with a NUL
  character is refused by \<open>sqlite3\<close>.
\<close>

fun read_str :: "string \<Rightarrow> (string \<times> string) option" where
  "read_str [] = None"
| "read_str (c # cs) =
     (if c = CHR 0x00 then None
      else if c = sq then
        (case cs of
           [] \<Rightarrow> Some ([], [])
         | d # ds \<Rightarrow>
             if d = sq then map_option (\<lambda>(s, r). (sq # s, r)) (read_str ds)
             else Some ([], cs))
      else map_option (\<lambda>(s, r). (c # s, r)) (read_str cs))"

lemma read_str_length: "read_str cs = Some (s, r) \<Longrightarrow> length r \<le> length cs"
  by (induction cs arbitrary: s r rule: read_str.induct)
     (fastforce split: if_splits list.splits)+

text \<open>A text without a quote and without a NUL character.\<close>

definition plain :: "string \<Rightarrow> bool" where
  "plain s = (sq \<notin> set s \<and> CHR 0x00 \<notin> set s)"

definition tcons :: "token \<Rightarrow> token list option \<Rightarrow> token list option" where
  "tcons t r = map_option ((#) t) r"

definition starts_word :: "string \<Rightarrow> bool" where
  "starts_word s = (case s of [] \<Rightarrow> False | d # _ \<Rightarrow> is_word d)"

function sql_lex :: "string \<Rightarrow> token list option" where
  "sql_lex [] = Some []"
| "sql_lex (c # cs) =
     (if is_space c then sql_lex cs
      else if is_digit c then
        (if starts_word (dropWhile is_digit cs) then None
         else tcons (TNum (digits_val (c # takeWhile is_digit cs))) (sql_lex (dropWhile is_digit cs)))
      else if is_alpha c then
        tcons (word_token (map lower (c # takeWhile is_word cs))) (sql_lex (dropWhile is_word cs))
      else if c = sq then
        (case read_str cs of None \<Rightarrow> None | Some (s, r) \<Rightarrow> tcons (TStr s) (sql_lex r))
      else if c = CHR ''='' then tcons TEq (sql_lex cs)
      else if c = CHR ''*'' then tcons TStar (sql_lex cs)
      else if c = CHR ''-'' then tcons TMinus (sql_lex cs)
      else None)"
  by pat_completeness auto
termination
  by (relation "measure length")
     (auto simp: le_imp_less_Suc length_dropWhile_le dest: read_str_length)

declare sql_lex.simps(2) [simp del]

datatype operand = OInt int | OText string | ONull | OCol string

datatype cond =
    CEq operand operand
  | CIsNull operand
  | CIsNotNull operand
  | CVal operand
  | CNot cond

datatype stmt =
    Select string "cond list list option" "(string \<times> bool) option"
  | Update string string operand "cond list list option"

definition parse_operand :: "token list \<Rightarrow> operand option" where
  "parse_operand ts =
     (case ts of
        [TNum n] \<Rightarrow> Some (OInt (int n))
      | [TMinus, TNum n] \<Rightarrow> Some (OInt (- int n))
      | [TStr s] \<Rightarrow> Some (OText s)
      | [KNull] \<Rightarrow> Some ONull
      | [TId c] \<Rightarrow> Some (OCol c)
      | _ \<Rightarrow> None)"

definition parse_cmp :: "token list \<Rightarrow> cond option" where
  "parse_cmp ts =
     (if TEq \<in> set ts then
        (case (parse_operand (takeWhile (\<lambda>t. t \<noteq> TEq) ts),
               parse_operand (tl (dropWhile (\<lambda>t. t \<noteq> TEq) ts))) of
           (Some a, Some b) \<Rightarrow> Some (CEq a b)
         | _ \<Rightarrow> None)
      else
        (case rev ts of
           KNull # KNot # KIs # l \<Rightarrow> map_option CIsNotNull (parse_operand (rev l))
         | KNull # KIs # l \<Rightarrow> map_option CIsNull (parse_operand (rev l))
         | _ \<Rightarrow> map_option CVal (parse_operand ts)))"

fun parse_cond :: "token list \<Rightarrow> cond option" where
  "parse_cond [] = None"
| "parse_cond (t # ts) =
     (if t = KNot then map_option CNot (parse_cond ts) else parse_cmp (t # ts))"

fun split_on :: "token \<Rightarrow> token list \<Rightarrow> token list list" where
  "split_on sep [] = [[]]"
| "split_on sep (t # ts) =
     (if t = sep then [] # split_on sep ts
      else (case split_on sep ts of [] \<Rightarrow> [[t]] | g # gs \<Rightarrow> (t # g) # gs))"

definition parse_where :: "token list \<Rightarrow> cond list list option" where
  "parse_where ts = those (map (\<lambda>g. those (map parse_cond (split_on KAnd g))) (split_on KOr ts))"

definition parse_where_opt :: "token list \<Rightarrow> cond list list option option" where
  "parse_where_opt ts =
     (case ts of
        [] \<Rightarrow> Some None
      | t # cs \<Rightarrow> if t = KWhere then map_option Some (parse_where cs) else None)"

definition parse_order :: "token list \<Rightarrow> (string \<times> bool) option option" where
  "parse_order ts =
     (case ts of
        [] \<Rightarrow> Some None
      | [KOrder, KBy, TId c] \<Rightarrow> Some (Some (c, False))
      | [KOrder, KBy, TId c, KAsc] \<Rightarrow> Some (Some (c, False))
      | [KOrder, KBy, TId c, KDesc] \<Rightarrow> Some (Some (c, True))
      | _ \<Rightarrow> None)"

definition parse_stmt :: "token list \<Rightarrow> stmt option" where
  "parse_stmt ts =
     (case ts of
        KSelect # TStar # KFrom # TId t # rest \<Rightarrow>
          (case (parse_where_opt (takeWhile (\<lambda>t. t \<noteq> KOrder) rest),
                 parse_order (dropWhile (\<lambda>t. t \<noteq> KOrder) rest)) of
             (Some w, Some ob) \<Rightarrow> Some (Select t w ob)
           | _ \<Rightarrow> None)
      | KUpdate # TId t # KSet # TId c # TEq # rest \<Rightarrow>
          (case (parse_operand (takeWhile (\<lambda>t. t \<noteq> KWhere) rest),
                 parse_where_opt (dropWhile (\<lambda>t. t \<noteq> KWhere) rest)) of
             (Some v, Some w) \<Rightarrow> Some (Update t c v w)
           | _ \<Rightarrow> None)
      | _ \<Rightarrow> None)"

subsection \<open>Evaluation\<close>

datatype tri = TTrue | TFalse | TNull

definition tri_of_bool :: "bool \<Rightarrow> tri" where
  "tri_of_bool b = (if b then TTrue else TFalse)"

fun tri_not :: "tri \<Rightarrow> tri" where
  "tri_not TTrue = TFalse"
| "tri_not TFalse = TTrue"
| "tri_not TNull = TNull"

fun tri_and :: "tri \<Rightarrow> tri \<Rightarrow> tri" where
  "tri_and TFalse _ = TFalse"
| "tri_and _ TFalse = TFalse"
| "tri_and TTrue TTrue = TTrue"
| "tri_and _ _ = TNull"

fun tri_or :: "tri \<Rightarrow> tri \<Rightarrow> tri" where
  "tri_or TTrue _ = TTrue"
| "tri_or _ TTrue = TTrue"
| "tri_or TFalse TFalse = TFalse"
| "tri_or _ _ = TNull"

fun sql_eq :: "sqlval \<Rightarrow> sqlval \<Rightarrow> tri option" where
  "sql_eq SqlNull _ = Some TNull"
| "sql_eq _ SqlNull = Some TNull"
| "sql_eq (SqlInt a) (SqlInt b) = Some (tri_of_bool (a = b))"
| "sql_eq (SqlText a) (SqlText b) = Some (tri_of_bool (a = b))"
| "sql_eq _ _ = None"

fun sql_truth :: "sqlval \<Rightarrow> tri option" where
  "sql_truth SqlNull = Some TNull"
| "sql_truth (SqlInt n) = Some (tri_of_bool (n \<noteq> 0))"
| "sql_truth (SqlText s) = None"

fun eval_operand :: "(string \<Rightarrow> sqlval option) \<Rightarrow> operand \<Rightarrow> sqlval option" where
  "eval_operand row (OInt n) = Some (SqlInt n)"
| "eval_operand row (OText s) = Some (SqlText s)"
| "eval_operand row ONull = Some SqlNull"
| "eval_operand row (OCol c) = row c"

fun eval_cond :: "(string \<Rightarrow> sqlval option) \<Rightarrow> cond \<Rightarrow> tri option" where
  "eval_cond row (CEq a b) =
     (case (eval_operand row a, eval_operand row b) of
        (Some x, Some y) \<Rightarrow> sql_eq x y
      | _ \<Rightarrow> None)"
| "eval_cond row (CIsNull a) = map_option (\<lambda>x. tri_of_bool (x = SqlNull)) (eval_operand row a)"
| "eval_cond row (CIsNotNull a) = map_option (\<lambda>x. tri_of_bool (x \<noteq> SqlNull)) (eval_operand row a)"
| "eval_cond row (CVal a) = (case eval_operand row a of None \<Rightarrow> None | Some x \<Rightarrow> sql_truth x)"
| "eval_cond row (CNot c) = map_option tri_not (eval_cond row c)"

definition eval_and :: "(string \<Rightarrow> sqlval option) \<Rightarrow> cond list \<Rightarrow> tri option" where
  "eval_and row cs = map_option (\<lambda>ts. foldr tri_and ts TTrue) (those (map (eval_cond row) cs))"

definition eval_where :: "(string \<Rightarrow> sqlval option) \<Rightarrow> cond list list \<Rightarrow> tri option" where
  "eval_where row w = map_option (\<lambda>ts. foldr tri_or ts TFalse) (those (map (eval_and row) w))"

definition where_holds :: "(string \<Rightarrow> sqlval option) \<Rightarrow> cond list list option \<Rightarrow> bool option" where
  "where_holds row w =
     (case w of None \<Rightarrow> Some True | Some cs \<Rightarrow> map_option (\<lambda>t. t = TTrue) (eval_where row cs))"

fun filter_opt :: "('r \<Rightarrow> bool option) \<Rightarrow> 'r list \<Rightarrow> 'r list option" where
  "filter_opt p [] = Some []"
| "filter_opt p (x # xs) =
     (case p x of
        None \<Rightarrow> None
      | Some b \<Rightarrow> map_option (\<lambda>ys. if b then x # ys else ys) (filter_opt p xs))"

fun operand_cols :: "operand \<Rightarrow> string list" where
  "operand_cols (OCol c) = [c]"
| "operand_cols _ = []"

fun cond_cols :: "cond \<Rightarrow> string list" where
  "cond_cols (CEq a b) = operand_cols a @ operand_cols b"
| "cond_cols (CIsNull a) = operand_cols a"
| "cond_cols (CIsNotNull a) = operand_cols a"
| "cond_cols (CVal a) = operand_cols a"
| "cond_cols (CNot c) = cond_cols c"

definition where_cols :: "cond list list option \<Rightarrow> string list" where
  "where_cols w = (case w of None \<Rightarrow> [] | Some cs \<Rightarrow> concat (map (\<lambda>g. concat (map cond_cols g)) cs))"

subsection \<open>ORDER BY\<close>

fun text_le :: "string \<Rightarrow> string \<Rightarrow> bool" where
  "text_le [] _ = True"
| "text_le (a # as) [] = False"
| "text_le (a # as) (b # bs) =
     ((of_char a :: nat) < of_char b \<or> (a = b \<and> text_le as bs))"

fun sql_le :: "sqlval \<Rightarrow> sqlval \<Rightarrow> bool" where
  "sql_le SqlNull _ = True"
| "sql_le (SqlInt a) SqlNull = False"
| "sql_le (SqlInt a) (SqlInt b) = (a \<le> b)"
| "sql_le (SqlInt a) (SqlText t) = True"
| "sql_le (SqlText s) (SqlText t) = text_le s t"
| "sql_le (SqlText s) _ = False"

fun insert_by :: "('r \<Rightarrow> 'r \<Rightarrow> bool) \<Rightarrow> 'r \<Rightarrow> 'r list \<Rightarrow> 'r list" where
  "insert_by le x [] = [x]"
| "insert_by le x (y # ys) = (if le x y then x # y # ys else y # insert_by le x ys)"

definition sort_by :: "('r \<Rightarrow> 'r \<Rightarrow> bool) \<Rightarrow> 'r list \<Rightarrow> 'r list" where
  "sort_by le xs = foldr (insert_by le) xs []"

definition col_val :: "('r \<Rightarrow> string \<Rightarrow> sqlval option) \<Rightarrow> string \<Rightarrow> 'r \<Rightarrow> sqlval" where
  "col_val getc c r = (case getc r c of None \<Rightarrow> SqlNull | Some v \<Rightarrow> v)"

definition order_rows :: "('r \<Rightarrow> string \<Rightarrow> sqlval option) \<Rightarrow> (string \<times> bool) option \<Rightarrow> 'r list \<Rightarrow> 'r list" where
  "order_rows getc ob rows =
     (case ob of
        None \<Rightarrow> rows
      | Some (c, desc) \<Rightarrow>
          if desc then sort_by (\<lambda>x y. sql_le (col_val getc c y) (col_val getc c x)) rows
          else sort_by (\<lambda>x y. sql_le (col_val getc c x) (col_val getc c y)) rows)"

subsection \<open>Statements against a table\<close>

text \<open>
  A table is its column names, a reader of a row's columns, a writer of one column of
  a row (\<open>None\<close> where the value does not fit the model of the column), and its rows in
  rowid order. \<open>None\<close> as the result of a statement: SQLite raises
  \<open>OperationalError\<close>, or the statement is outside the fragment.
\<close>

definition sql_select ::
  "string \<Rightarrow> string list \<Rightarrow> ('r \<Rightarrow> string \<Rightarrow> sqlval option) \<Rightarrow> 'r list \<Rightarrow> string \<Rightarrow> 'r list option" where
  "sql_select name cols getc rows query =
     (case sql_lex query of
        None \<Rightarrow> None
      | Some ts \<Rightarrow>
          (case parse_stmt ts of
             Some (Select t w ob) \<Rightarrow>
               if t = name \<and> list_all (\<lambda>c. c \<in> set cols) (where_cols w @ (case ob of None \<Rightarrow> [] | Some (c, _) \<Rightarrow> [c]))
               then map_option (order_rows getc ob) (filter_opt (\<lambda>r. where_holds (getc r) w) rows)
               else None
           | _ \<Rightarrow> None))"

fun update_opt :: "('r \<Rightarrow> bool option) \<Rightarrow> ('r \<Rightarrow> 'r option) \<Rightarrow> 'r list \<Rightarrow> 'r list option" where
  "update_opt p f [] = Some []"
| "update_opt p f (x # xs) =
     (case p x of
        None \<Rightarrow> None
      | Some b \<Rightarrow>
          (case (if b then f x else Some x) of
             None \<Rightarrow> None
           | Some y \<Rightarrow> map_option ((#) y) (update_opt p f xs)))"

definition sql_update ::
  "string \<Rightarrow> string list \<Rightarrow> ('r \<Rightarrow> string \<Rightarrow> sqlval option) \<Rightarrow> (string \<Rightarrow> sqlval \<Rightarrow> 'r \<Rightarrow> 'r option) \<Rightarrow>
   'r list \<Rightarrow> string \<Rightarrow> 'r list option" where
  "sql_update name cols getc setc rows query =
     (case sql_lex query of
        None \<Rightarrow> None
      | Some ts \<Rightarrow>
          (case parse_stmt ts of
             Some (Update t c v w) \<Rightarrow>
               if t = name \<and> list_all (\<lambda>c. c \<in> set cols) (c # operand_cols v @ where_cols w)
               then update_opt (\<lambda>r. where_holds (getc r) w)
                      (\<lambda>r. case eval_operand (getc r) v of None \<Rightarrow> None | Some x \<Rightarrow> setc c x r) rows
               else None
           | _ \<Rightarrow> None))"

section \<open>Storage\<close>

text \<open>
  The state of \<open>taskflow.db\<close> after the schema bootstrap: both tables exist, so
  \<open>CREATE TABLE IF NOT EXISTS\<close> changes nothing. A row is a record of its columns in
  the order of \<open>CREATE TABLE\<close>; \<open>None\<close> is \<open>NULL\<close>. A column of type \<open>TEXT\<close>
  holds text or \<open>NULL\<close> (it turns an integer that is written to it into text), and a
  column of type \<open>INTEGER\<close> an integer or \<open>NULL\<close>; timestamps are stored as their ISO
  text.
  \<open>tasks_seq\<close> and \<open>users_seq\<close> are the entries of \<open>sqlite_sequence\<close>.
\<close>

record task_row =
  r_id :: int
  r_title :: string
  r_description :: "string option"
  r_status :: "string option"
  r_priority :: "string option"
  r_due_date :: "string option"
  r_user_id :: "int option"
  r_created_at :: "string option"
  r_updated_at :: "string option"
  r_deleted_at :: "string option"

record user_row =
  ur_id :: int
  ur_username :: string
  ur_email :: string
  ur_password_hash :: string
  ur_first_name :: "string option"
  ur_last_name :: "string option"
  ur_is_active :: "int option"
  ur_created_at :: "string option"
  ur_updated_at :: "string option"
  ur_last_login :: "string option"
  ur_api_key :: "string option"

record db =
  tasks :: "task_row list"
  tasks_seq :: int
  users :: "user_row list"
  users_seq :: int

text \<open>The database right after the bootstrap, before any row is stored.\<close>

definition empty_db :: db where
  "empty_db = \<lparr>tasks = [], tasks_seq = 0, users = [], users_seq = 0\<rparr>"

definition sql_text :: "string option \<Rightarrow> sqlval" where
  "sql_text x = (case x of None \<Rightarrow> SqlNull | Some s \<Rightarrow> SqlText s)"

definition sql_int :: "int option \<Rightarrow> sqlval" where
  "sql_int x = (case x of None \<Rightarrow> SqlNull | Some n \<Rightarrow> SqlInt n)"

definition task_cols :: "string list" where
  "task_cols = [''id'', ''title'', ''description'', ''status'', ''priority'', ''due_date'',
                ''user_id'', ''created_at'', ''updated_at'', ''deleted_at'']"

definition task_get :: "task_row \<Rightarrow> string \<Rightarrow> sqlval option" where
  "task_get r c =
     (if c = ''id'' then Some (SqlInt (r_id r))
      else if c = ''title'' then Some (SqlText (r_title r))
      else if c = ''description'' then Some (sql_text (r_description r))
      else if c = ''status'' then Some (sql_text (r_status r))
      else if c = ''priority'' then Some (sql_text (r_priority r))
      else if c = ''due_date'' then Some (sql_text (r_due_date r))
      else if c = ''user_id'' then Some (sql_int (r_user_id r))
      else if c = ''created_at'' then Some (sql_text (r_created_at r))
      else if c = ''updated_at'' then Some (sql_text (r_updated_at r))
      else if c = ''deleted_at'' then Some (sql_text (r_deleted_at r))
      else None)"

text \<open>A value as a column of type \<open>TEXT\<close> stores it: an integer becomes its text.\<close>

definition as_text :: "sqlval \<Rightarrow> string option" where
  "as_text v = (case v of SqlNull \<Rightarrow> None | SqlInt n \<Rightarrow> Some (str_int n) | SqlText s \<Rightarrow> Some s)"

text \<open>Writing one column of a task row with \<open>UPDATE ... SET\<close>. The code sets
  \<open>deleted_at\<close> only; the text columns that may be \<open>NULL\<close> are modelled.\<close>

definition task_set :: "string \<Rightarrow> sqlval \<Rightarrow> task_row \<Rightarrow> task_row option" where
  "task_set c v r =
     (if c = ''description'' then Some (r\<lparr>r_description := as_text v\<rparr>)
      else if c = ''status'' then Some (r\<lparr>r_status := as_text v\<rparr>)
      else if c = ''priority'' then Some (r\<lparr>r_priority := as_text v\<rparr>)
      else if c = ''due_date'' then Some (r\<lparr>r_due_date := as_text v\<rparr>)
      else if c = ''created_at'' then Some (r\<lparr>r_created_at := as_text v\<rparr>)
      else if c = ''updated_at'' then Some (r\<lparr>r_updated_at := as_text v\<rparr>)
      else if c = ''deleted_at'' then Some (r\<lparr>r_deleted_at := as_text v\<rparr>)
      else None)"

definition user_cols :: "string list" where
  "user_cols = [''id'', ''username'', ''email'', ''password_hash'', ''first_name'', ''last_name'',
                ''is_active'', ''created_at'', ''updated_at'', ''last_login'', ''api_key'']"

definition user_get :: "user_row \<Rightarrow> string \<Rightarrow> sqlval option" where
  "user_get r c =
     (if c = ''id'' then Some (SqlInt (ur_id r))
      else if c = ''username'' then Some (SqlText (ur_username r))
      else if c = ''email'' then Some (SqlText (ur_email r))
      else if c = ''password_hash'' then Some (SqlText (ur_password_hash r))
      else if c = ''first_name'' then Some (sql_text (ur_first_name r))
      else if c = ''last_name'' then Some (sql_text (ur_last_name r))
      else if c = ''is_active'' then Some (sql_int (ur_is_active r))
      else if c = ''created_at'' then Some (sql_text (ur_created_at r))
      else if c = ''updated_at'' then Some (sql_text (ur_updated_at r))
      else if c = ''last_login'' then Some (sql_text (ur_last_login r))
      else if c = ''api_key'' then Some (sql_text (ur_api_key r))
      else None)"

text \<open>\<open>AUTOINCREMENT\<close>: one more than the largest rowid the table has ever held.\<close>

definition next_rowid :: "int \<Rightarrow> int list \<Rightarrow> int" where
  "next_rowid seq ids = fold max ids seq + 1"

text \<open>\<open>cursor.execute(query)\<close> for a query on one of the two tables.\<close>

definition select_tasks :: "db \<Rightarrow> string \<Rightarrow> py_error + task_row list" where
  "select_tasks d query =
     (case sql_select ''tasks'' task_cols task_get (tasks d) query of
        None \<Rightarrow> Inl OperationalError
      | Some rows \<Rightarrow> Inr rows)"

definition select_users :: "db \<Rightarrow> string \<Rightarrow> py_error + user_row list" where
  "select_users d query =
     (case sql_select ''users'' user_cols user_get (users d) query of
        None \<Rightarrow> Inl OperationalError
      | Some rows \<Rightarrow> Inr rows)"

text \<open>\<open>cursor.fetchone()\<close>.\<close>

definition fetchone :: "'r list \<Rightarrow> 'r option" where
  "fetchone rows = (case rows of [] \<Rightarrow> None | r # _ \<Rightarrow> Some r)"

text \<open>\<open>datetime.fromisoformat(x) if x else None\<close> for a column \<open>x\<close>.\<close>

definition read_time :: "string option \<Rightarrow> py_error + datetime option" where
  "read_time x =
     (case x of
        None \<Rightarrow> Inr None
      | Some s \<Rightarrow>
          if s = [] then Inr None
          else (case fromisoformat s of Inl e \<Rightarrow> Inl e | Inr t \<Rightarrow> Inr (Some t)))"

text \<open>The elements of a list of results, or the first exception.\<close>

fun collect :: "('e + 'a) list \<Rightarrow> 'e + 'a list" where
  "collect [] = Inr []"
| "collect (x # xs) =
     (case x of
        Inl e \<Rightarrow> Inl e
      | Inr y \<Rightarrow> (case collect xs of Inl e \<Rightarrow> Inl e | Inr ys \<Rightarrow> Inr (y # ys)))"

section \<open>The Task entity\<close>

text \<open>
  Python gives an attribute no type: a Task holds whatever its caller or the payload put
  there, and \<open>save\<close> is where the value meets the table. The value of an attribute is
  \<open>None\<close>, a bool, an integer, a text, a datetime, a list or a dictionary: the values
  of a JSON payload, and the datetime that the data model names for \<open>due_date\<close>.
  Floating point numbers and bytes are left out. \<open>id\<close>, \<open>created_at\<close>, \<open>updated_at\<close>
  and \<open>deleted_at\<close> are assigned by the class only: an integer that comes from the
  database, and datetimes. \<open>created_at\<close> is never \<open>None\<close>: the constructor puts the
  clock there when none is given.
\<close>

datatype pyobj =
    VNone | VBool bool | VInt int | VStr string | VTime datetime
  | VList "pyobj list" | VDict "(string \<times> pyobj) list"

text \<open>Python's truth test on an attribute.\<close>

fun is_true :: "pyobj \<Rightarrow> bool" where
  "is_true VNone = False"
| "is_true (VBool b) = b"
| "is_true (VInt n) = (n \<noteq> 0)"
| "is_true (VStr s) = (s \<noteq> [])"
| "is_true (VTime t) = True"
| "is_true (VList xs) = (xs \<noteq> [])"
| "is_true (VDict kvs) = (kvs \<noteq> [])"


text \<open>The Python value of a column that was read from a row.\<close>

definition obj_str :: "string option \<Rightarrow> pyobj" where
  "obj_str x = (case x of None \<Rightarrow> VNone | Some s \<Rightarrow> VStr s)"

definition obj_int :: "int option \<Rightarrow> pyobj" where
  "obj_int x = (case x of None \<Rightarrow> VNone | Some n \<Rightarrow> VInt n)"

definition obj_time :: "datetime option \<Rightarrow> pyobj" where
  "obj_time x = (case x of None \<Rightarrow> VNone | Some t \<Rightarrow> VTime t)"

text \<open>\<open>x.isoformat() if x else None\<close> for an attribute that the class assigns.\<close>

definition obj_iso :: "datetime option \<Rightarrow> pyobj" where
  "obj_iso x = (case x of None \<Rightarrow> VNone | Some t \<Rightarrow> VStr (isoformat t))"

subsection \<open>Values as parameters of a statement\<close>

text \<open>
  \<open>sqlite3\<close> binds \<open>None\<close> as \<open>NULL\<close>, a bool as 0 or 1, an integer as a 64-bit signed
  integer (it raises \<open>OverflowError\<close> for one that does not fit), and a text as it is. It
  raises \<open>ProgrammingError\<close> (\<open>InterfaceError\<close> before Python 3.11) for a list or a
  dictionary. A datetime is bound through the adapter of the module, in a spelling of
  its own, which is not modelled.
\<close>

definition int64 :: "int \<Rightarrow> bool" where
  "int64 n = (- (2 ^ 63) \<le> n \<and> n < 2 ^ 63)"

fun bind_param :: "pyobj \<Rightarrow> py_error + sqlval" where
  "bind_param VNone = Inr SqlNull"
| "bind_param (VBool b) = Inr (SqlInt (if b then 1 else 0))"
| "bind_param (VInt n) = (if int64 n then Inr (SqlInt n) else Inl OverflowError)"
| "bind_param (VStr s) = Inr (SqlText s)"
| "bind_param (VTime t) = Inl NotModelled"
| "bind_param (VList xs) = Inl ProgrammingError"
| "bind_param (VDict kvs) = Inl ProgrammingError"

text \<open>
  What a column holds after a value is bound to it. A column of type \<open>TEXT\<close> stores an
  integer as its text. A column of type \<open>INTEGER\<close> stores an integer as it is; a text
  that is bound to it is stored as a number or as text, by its look, which is not
  modelled.
\<close>

definition text_column :: "pyobj \<Rightarrow> py_error + string option" where
  "text_column v = (case bind_param v of Inl e \<Rightarrow> Inl e | Inr x \<Rightarrow> Inr (as_text x))"

definition int_column :: "pyobj \<Rightarrow> py_error + int option" where
  "int_column v =
     (case bind_param v of
        Inl e \<Rightarrow> Inl e
      | Inr x \<Rightarrow> (case x of SqlNull \<Rightarrow> Inr None | SqlInt n \<Rightarrow> Inr (Some n) | SqlText s \<Rightarrow> Inl NotModelled))"

text \<open>\<open>x.isoformat() if x else None\<close> for an attribute that holds any value: a value
  that is true and is no datetime has no \<open>isoformat\<close>.\<close>

definition iso_if :: "pyobj \<Rightarrow> py_error + string option" where
  "iso_if v =
     (if is_true v then (case v of VTime t \<Rightarrow> Inr (Some (isoformat t)) | _ \<Rightarrow> Inl AttributeError)
      else Inr None)"

subsection \<open>The class\<close>

record Task =
  tid :: "int option"
  title :: pyobj
  description :: pyobj
  status :: pyobj
  priority :: pyobj
  due_date :: pyobj
  user_id :: pyobj
  created_at :: datetime
  updated_at :: "datetime option"
  deleted_at :: "datetime option"

text \<open>\<open>Task.__init__\<close>; \<open>now\<close> is the clock, read when \<open>created_at\<close> is not given.\<close>

definition Task_new ::
  "int option \<Rightarrow> pyobj \<Rightarrow> pyobj \<Rightarrow> pyobj \<Rightarrow> pyobj \<Rightarrow> pyobj \<Rightarrow> pyobj \<Rightarrow> datetime option \<Rightarrow>
   datetime \<Rightarrow> Task" where
  "Task_new i t de s p du u c now =
     \<lparr>tid = i, title = t, description = de, status = s, priority = p, due_date = du,
      user_id = u, created_at = (case c of None \<Rightarrow> now | Some x \<Rightarrow> x),
      updated_at = None, deleted_at = None\<rparr>"


definition Task_from_row :: "datetime \<Rightarrow> task_row \<Rightarrow> py_error + Task" where
  "Task_from_row now r =
     (case read_time (r_due_date r) of Inl e \<Rightarrow> Inl e | Inr du \<Rightarrow>
     (case read_time (r_created_at r) of Inl e \<Rightarrow> Inl e | Inr c \<Rightarrow>
     (let task = Task_new (Some (r_id r)) (VStr (r_title r)) (obj_str (r_description r))
                   (obj_str (r_status r)) (obj_str (r_priority r)) (obj_time du)
                   (obj_int (r_user_id r)) c now
      in
     (case read_time (r_updated_at r) of Inl e \<Rightarrow> Inl e | Inr up \<Rightarrow>
     (case read_time (r_deleted_at r) of Inl e \<Rightarrow> Inl e | Inr de \<Rightarrow>
      Inr (task\<lparr>updated_at := up, deleted_at := de\<rparr>))))))"

text \<open>\<open>if self.id:\<close>\<close>

definition id_set :: "int option \<Rightarrow> bool" where
  "id_set i = (case i of None \<Rightarrow> False | Some n \<Rightarrow> n \<noteq> 0)"

text \<open>
  The values that \<open>save\<close> hands to its statement for the six attributes, as the columns
  store them. Python builds the tuple of parameters first, where \<open>isoformat\<close> may
  raise; \<open>sqlite3\<close> then binds the parameters in their order and raises at the first
  that it cannot bind.
\<close>

definition task_columns ::
  "Task \<Rightarrow> py_error + string option \<times> string option \<times> string option \<times> string option \<times>
                     string option \<times> int option" where
  "task_columns t =
     (case iso_if (due_date t) of Inl e \<Rightarrow> Inl e | Inr du \<Rightarrow>
     (case text_column (title t) of Inl e \<Rightarrow> Inl e | Inr ti \<Rightarrow>
     (case text_column (description t) of Inl e \<Rightarrow> Inl e | Inr de \<Rightarrow>
     (case text_column (status t) of Inl e \<Rightarrow> Inl e | Inr st \<Rightarrow>
     (case text_column (priority t) of Inl e \<Rightarrow> Inl e | Inr pr \<Rightarrow>
     (case int_column (user_id t) of Inl e \<Rightarrow> Inl e | Inr us \<Rightarrow>
      Inr (ti, de, st, pr, du, us)))))))"

text \<open>
  \<open>Task.save\<close>: \<open>now\<close> is the clock read for \<open>updated_at\<close>. The statements bind their
  values as parameters, so their effect is written out. The \<open>UPDATE\<close> binds \<open>self.id\<close>
  as its last parameter. \<open>title\<close> is \<open>NOT NULL\<close>. An \<open>INSERT\<close> takes the next rowid
  before it checks the row, and SQLite has none left after the largest 64-bit integer
  (\<open>OperationalError\<close>: the database is full).
\<close>

definition Task_save :: "db \<Rightarrow> Task \<Rightarrow> datetime \<Rightarrow> py_error + Task \<times> db" where
  "Task_save d t now =
     (case task_columns t of
        Inl e \<Rightarrow> Inl e
      | Inr (ti, de, st, pr, du, us) \<Rightarrow>
          (if id_set (tid t) then
             (if (case tid t of None \<Rightarrow> False | Some i \<Rightarrow> \<not> int64 i) then Inl OverflowError
              else
                (case ti of
                   None \<Rightarrow>
                     if \<exists>r \<in> set (tasks d). Some (r_id r) = tid t then Inl (IntegrityError NotNull)
                     else Inr (t, d)
                 | Some ti' \<Rightarrow>
                     Inr (t, d\<lparr>tasks :=
                       map (\<lambda>r. if Some (r_id r) = tid t
                                 then r\<lparr>r_title := ti', r_description := de,
                                        r_status := st, r_priority := pr,
                                        r_due_date := du, r_user_id := us,
                                        r_updated_at := Some (isoformat now)\<rparr>
                                 else r) (tasks d)\<rparr>)))
           else
             (let new_id = next_rowid (tasks_seq d) (map r_id (tasks d))
              in if \<not> int64 new_id then Inl OperationalError
                 else
                   (case ti of
                      None \<Rightarrow> Inl (IntegrityError NotNull)
                    | Some ti' \<Rightarrow>
                        Inr (t\<lparr>tid := Some new_id\<rparr>,
                             d\<lparr>tasks := tasks d @
                                 [\<lparr>r_id = new_id, r_title = ti', r_description = de,
                                   r_status = st, r_priority = pr, r_due_date = du,
                                   r_user_id = us,
                                   r_created_at = Some (isoformat (created_at t)),
                                   r_updated_at = Some (isoformat now), r_deleted_at = None\<rparr>],
                               tasks_seq := new_id\<rparr>)))))"

definition Task_find_by_id :: "db \<Rightarrow> int \<Rightarrow> datetime \<Rightarrow> py_error + Task option" where
  "Task_find_by_id d task_id now =
     (case select_tasks d (''SELECT * FROM tasks WHERE id = '' @ str_int task_id @ '' AND deleted_at IS NULL'') of
        Inl e \<Rightarrow> Inl e
      | Inr rows \<Rightarrow>
          (case fetchone rows of
             None \<Rightarrow> Inr None
           | Some row \<Rightarrow> (case Task_from_row now row of Inl e \<Rightarrow> Inl e | Inr t \<Rightarrow> Inr (Some t))))"

definition Task_find_all :: "db \<Rightarrow> pyval \<Rightarrow> pyval \<Rightarrow> datetime \<Rightarrow> py_error + Task list" where
  "Task_find_all d user_id' status' now =
     (let query = ''SELECT * FROM tasks WHERE deleted_at IS NULL'';
          query = (if truthy user_id' then query @ '' AND user_id = '' @ py_str user_id' else query);
          query = (if truthy status' then query @ '' AND status = '' @ [sq] @ py_str status' @ [sq] else query);
          query = query @ '' ORDER BY created_at DESC''
      in case select_tasks d query of
           Inl e \<Rightarrow> Inl e
         | Inr rows \<Rightarrow> collect (map (Task_from_row now) rows))"

text \<open>
  \<open>Task.delete\<close>: \<open>now\<close> is the clock read for the statement and \<open>now'\<close> the clock
  read for the attribute. The statement is an f-string over the ISO text and
  \<open>self.id\<close>, between a line break with indentation on each side.
\<close>

definition Task_delete :: "db \<Rightarrow> Task \<Rightarrow> datetime \<Rightarrow> datetime \<Rightarrow> py_error + Task \<times> db" where
  "Task_delete d t now now' =
     (let query = [CHR 0x0A] @ ''            UPDATE tasks SET deleted_at = '' @ [sq] @ isoformat now @ [sq] @
                  '' WHERE id = '' @ py_str (opt_int (tid t)) @ [CHR 0x0A] @ ''        ''
      in case sql_update ''tasks'' task_cols task_get task_set (tasks d) query of
           None \<Rightarrow> Inl OperationalError
         | Some rows \<Rightarrow> Inr (t\<lparr>deleted_at := Some now'\<rparr>, d\<lparr>tasks := rows\<rparr>))"

text \<open>\<open>Task.to_dict\<close>: the six attributes go into the dictionary as they are, but for
  \<open>due_date\<close>, whose \<open>isoformat\<close> is called when it is true.\<close>

definition Task_to_dict :: "Task \<Rightarrow> py_error + (string \<times> pyobj) list" where
  "Task_to_dict t =
     (case iso_if (due_date t) of
        Inl e \<Rightarrow> Inl e
      | Inr du \<Rightarrow>
          Inr [(''id'', obj_int (tid t)),
               (''title'', title t),
               (''description'', description t),
               (''status'', status t),
               (''priority'', priority t),
               (''due_date'', obj_str du),
               (''user_id'', user_id t),
               (''created_at'', VStr (isoformat (created_at t))),
               (''updated_at'', obj_iso (updated_at t))])"




section \<open>Request payloads\<close>

text \<open>
  A payload is the dictionary that is passed as keyword arguments. A task payload maps
  its keys to values of any kind. A key \<open>self\<close> collides with the first parameter of the
  constructor, and a call of \<open>TaskCreate\<close> without \<open>title\<close> lacks an argument: both raise
  \<open>TypeError\<close>. Keys that no parameter names go to \<open>**kwargs\<close> and are never read.
\<close>

text \<open>A parameter with a default.\<close>

definition kwarg :: "(string \<rightharpoonup> pyobj) \<Rightarrow> string \<Rightarrow> pyobj \<Rightarrow> pyobj" where
  "kwarg data k dflt = (case data k of None \<Rightarrow> dflt | Some v \<Rightarrow> v)"



record TaskUpdate =
  tu_title :: pyobj
  tu_description :: pyobj
  tu_status :: pyobj
  tu_priority :: pyobj
  tu_due_date :: pyobj
  tu_user_id :: pyobj

definition TaskUpdate_init :: "(string \<rightharpoonup> pyobj) \<Rightarrow> py_error + TaskUpdate" where
  "TaskUpdate_init data =
     (if data ''self'' \<noteq> None then Inl TypeError
      else
        Inr \<lparr>tu_title = kwarg data ''title'' VNone,
             tu_description = kwarg data ''description'' VNone,
             tu_status = kwarg data ''status'' VNone,
             tu_priority = kwarg data ''priority'' VNone,
             tu_due_date = kwarg data ''due_date'' VNone,
             tu_user_id = kwarg data ''user_id'' VNone\<rparr>)"

text \<open>
  For each parameter that \<open>UserCreate\<close> names, the key of a user payload is missing, or
  given as \<open>null\<close>, or given with a text. (\<open>UserCreate\<close> also writes the global
  \<open>TEMP_USER_DATA\<close>, which nothing reads.)
\<close>

datatype 'a arg = Missing | Null | Val 'a

text \<open>A parameter with a default.\<close>

fun param :: "'a option \<Rightarrow> 'a arg \<Rightarrow> 'a option" where
  "param dflt Missing = dflt"
| "param dflt Null = None"
| "param dflt (Val x) = Some x"

text \<open>A parameter without a default: a call without it raises \<open>TypeError\<close>.\<close>

fun required :: "'a arg \<Rightarrow> py_error + 'a option" where
  "required Missing = Inl TypeError"
| "required Null = Inr None"
| "required (Val x) = Inr (Some x)"

record user_data =
  d_username :: "string arg"
  d_email :: "string arg"
  d_password :: "string arg"
  d_first_name :: "string arg"
  d_last_name :: "string arg"

record UserCreate =
  uc_username :: "string option"
  uc_email :: "string option"
  uc_password :: "string option"
  uc_first_name :: "string option"
  uc_last_name :: "string option"
  uc_is_active :: bool

definition UserCreate_init :: "user_data \<Rightarrow> py_error + UserCreate" where
  "UserCreate_init data =
     (case required (d_username data) of Inl e \<Rightarrow> Inl e | Inr u \<Rightarrow>
     (case required (d_email data) of Inl e \<Rightarrow> Inl e | Inr em \<Rightarrow>
     (case required (d_password data) of Inl e \<Rightarrow> Inl e | Inr pw \<Rightarrow>
      Inr \<lparr>uc_username = u, uc_email = em, uc_password = pw,
           uc_first_name = param (Some []) (d_first_name data),
           uc_last_name = param (Some []) (d_last_name data),
           uc_is_active = True\<rparr>)))"

section \<open>The task service\<close>

text \<open>\<open>filters.get(key)\<close>\<close>

definition dict_get :: "(string \<rightharpoonup> pyval) \<Rightarrow> string \<Rightarrow> pyval" where
  "dict_get m k = (case m k of None \<Rightarrow> PyNone | Some v \<Rightarrow> v)"

definition get_tasks :: "db \<Rightarrow> (string \<rightharpoonup> pyval) option \<Rightarrow> datetime \<Rightarrow> py_error + (string \<times> pyobj) list list" where
  "get_tasks d filters now =
     (let filters = (case filters of None \<Rightarrow> Map.empty | Some f \<Rightarrow> f);
          status' = dict_get filters ''status'';
          user_id' = dict_get filters ''assigned_to''
      in case Task_find_all d user_id' status' now of
           Inl e \<Rightarrow> Inl e
         | Inr all_tasks \<Rightarrow> collect (map Task_to_dict all_tasks))"



text \<open>\<open>update_task\<close>: \<open>now\<close> is the clock that \<open>find_by_id\<close> may read, \<open>now'\<close> the
  clock read by \<open>save\<close>. The result \<open>None\<close> is the answer for a task that is not found.\<close>

definition update_task ::
  "db \<Rightarrow> int \<Rightarrow> (string \<rightharpoonup> pyobj) \<Rightarrow> datetime \<Rightarrow> datetime \<Rightarrow>
   py_error + (string \<times> pyobj) list option \<times> db" where
  "update_task d task_id data now now' =
     (case TaskUpdate_init data of
        Inl e \<Rightarrow> Inl e
      | Inr task_data \<Rightarrow>
          (case Task_find_by_id d task_id now of
             Inl e \<Rightarrow> Inl e
           | Inr None \<Rightarrow> Inr (None, d)
           | Inr (Some existing) \<Rightarrow>
              (let existing = (if tu_title task_data \<noteq> VNone
                               then existing\<lparr>title := tu_title task_data\<rparr> else existing);
                   existing = (if tu_description task_data \<noteq> VNone
                               then existing\<lparr>description := tu_description task_data\<rparr> else existing);
                   existing = (if tu_status task_data \<noteq> VNone
                               then existing\<lparr>status := tu_status task_data\<rparr> else existing);
                   existing = (if tu_priority task_data \<noteq> VNone
                               then existing\<lparr>priority := tu_priority task_data\<rparr> else existing);
                   existing = (if tu_due_date task_data \<noteq> VNone
                               then existing\<lparr>due_date := tu_due_date task_data\<rparr> else existing);
                   existing = (if tu_user_id task_data \<noteq> VNone
                               then existing\<lparr>user_id := tu_user_id task_data\<rparr> else existing)
               in (case Task_save d existing now' of
                     Inl e \<Rightarrow> Inl e
                   | Inr (saved, d') \<Rightarrow>
                       (case Task_to_dict saved of
                          Inl e \<Rightarrow> Inl e
                        | Inr res \<Rightarrow> Inr (Some res, d'))))))"

text \<open>\<open>delete_task\<close>: \<open>now\<close> is the clock that \<open>find_by_id\<close> may read, \<open>now'\<close> and
  \<open>now''\<close> the two readings of \<open>Task.delete\<close>.\<close>

definition delete_task :: "db \<Rightarrow> int \<Rightarrow> datetime \<Rightarrow> datetime \<Rightarrow> datetime \<Rightarrow> py_error + bool \<times> db" where
  "delete_task d task_id now now' now'' =
     (case Task_find_by_id d task_id now of
        Inl e \<Rightarrow> Inl e
      | Inr None \<Rightarrow> Inr (False, d)
      | Inr (Some found) \<Rightarrow>
          (case Task_delete d found now' now'' of
             Inl e \<Rightarrow> Inl e
           | Inr (_, d') \<Rightarrow> Inr (True, d')))"

section \<open>The User repository and the user service\<close>

definition User_from_row :: "datetime \<Rightarrow> user_row \<Rightarrow> py_error + User" where
  "User_from_row now r =
     (case read_time (ur_created_at r) of Inl e \<Rightarrow> Inl e | Inr c \<Rightarrow>
     (let user = \<lparr>uid = Some (ur_id r), username = Some (ur_username r), email = Some (ur_email r),
                  password_hash = ur_password_hash r, first_name = ur_first_name r,
                  last_name = ur_last_name r,
                  is_active = (case ur_is_active r of None \<Rightarrow> False | Some n \<Rightarrow> n \<noteq> 0),
                  u_created_at = (case c of None \<Rightarrow> now | Some x \<Rightarrow> x),
                  u_updated_at = None, last_login = None, api_key = None\<rparr>
      in
     (case read_time (ur_updated_at r) of Inl e \<Rightarrow> Inl e | Inr up \<Rightarrow>
     (case read_time (ur_last_login r) of Inl e \<Rightarrow> Inl e | Inr ll \<Rightarrow>
      Inr (user\<lparr>u_updated_at := up, last_login := ll, api_key := ur_api_key r\<rparr>)))))"

text \<open>
  \<open>User.save\<close>: \<open>username\<close> and \<open>email\<close> are \<open>UNIQUE NOT NULL\<close>. SQLite checks
  \<open>NOT NULL\<close> before \<open>UNIQUE\<close>, and a statement that fails changes nothing.
\<close>

definition User_save :: "db \<Rightarrow> User \<Rightarrow> datetime \<Rightarrow> py_error + User \<times> db" where
  "User_save d u now =
     (if id_set (uid u) then
        (if \<not> (\<exists>r \<in> set (users d). Some (ur_id r) = uid u) then Inr (u, d)
         else
           (case (username u, email u) of
              (Some un, Some em) \<Rightarrow>
                if \<exists>r \<in> set (users d). Some (ur_id r) \<noteq> uid u \<and> (ur_username r = un \<or> ur_email r = em)
                then Inl (IntegrityError Unique)
                else Inr (u, d\<lparr>users :=
                  map (\<lambda>r. if Some (ur_id r) = uid u
                            then r\<lparr>ur_username := un, ur_email := em,
                                   ur_password_hash := password_hash u,
                                   ur_first_name := first_name u, ur_last_name := last_name u,
                                   ur_is_active := Some (if is_active u then 1 else 0),
                                   ur_updated_at := Some (isoformat now),
                                   ur_last_login := map_option isoformat (last_login u),
                                   ur_api_key := api_key u\<rparr>
                            else r) (users d)\<rparr>)
            | _ \<Rightarrow> Inl (IntegrityError NotNull)))
      else
        (case (username u, email u) of
           (Some un, Some em) \<Rightarrow>
             if \<exists>r \<in> set (users d). ur_username r = un \<or> ur_email r = em
             then Inl (IntegrityError Unique)
             else
               let new_id = next_rowid (users_seq d) (map ur_id (users d));
                   row = \<lparr>ur_id = new_id, ur_username = un, ur_email = em,
                          ur_password_hash = password_hash u,
                          ur_first_name = first_name u, ur_last_name = last_name u,
                          ur_is_active = Some (if is_active u then 1 else 0),
                          ur_created_at = Some (isoformat (u_created_at u)),
                          ur_updated_at = Some (isoformat now),
                          ur_last_login = None, ur_api_key = api_key u\<rparr>
               in Inr (u\<lparr>uid := Some new_id\<rparr>,
                       d\<lparr>users := users d @ [row], users_seq := new_id\<rparr>)
         | _ \<Rightarrow> Inl (IntegrityError NotNull)))"

text \<open>The four finders: each runs its f-string and builds a User from the first row.\<close>

definition User_find :: "db \<Rightarrow> string \<Rightarrow> datetime \<Rightarrow> py_error + User option" where
  "User_find d query now =
     (case select_users d query of
        Inl e \<Rightarrow> Inl e
      | Inr rows \<Rightarrow>
          (case fetchone rows of
             None \<Rightarrow> Inr None
           | Some row \<Rightarrow> (case User_from_row now row of Inl e \<Rightarrow> Inl e | Inr u \<Rightarrow> Inr (Some u))))"

definition User_find_by_id :: "db \<Rightarrow> int \<Rightarrow> datetime \<Rightarrow> py_error + User option" where
  "User_find_by_id d user_id' now =
     User_find d (''SELECT * FROM users WHERE id = '' @ str_int user_id') now"

definition User_find_by_username :: "db \<Rightarrow> string \<Rightarrow> datetime \<Rightarrow> py_error + User option" where
  "User_find_by_username d username' now =
     User_find d (''SELECT * FROM users WHERE username = '' @ [sq] @ username' @ [sq]) now"

definition User_find_by_email :: "db \<Rightarrow> string \<Rightarrow> datetime \<Rightarrow> py_error + User option" where
  "User_find_by_email d email' now =
     User_find d (''SELECT * FROM users WHERE email = '' @ [sq] @ email' @ [sq]) now"

definition User_find_by_api_key :: "db \<Rightarrow> string \<Rightarrow> datetime \<Rightarrow> py_error + User option" where
  "User_find_by_api_key d api_key' now =
     User_find d (''SELECT * FROM users WHERE api_key = '' @ [sq] @ api_key' @ [sq]) now"

definition get_users :: "db \<Rightarrow> datetime \<Rightarrow> py_error + (string \<times> pyval) list list" where
  "get_users d now =
     (case select_users d ''SELECT * FROM users'' of
        Inl e \<Rightarrow> Inl e
      | Inr rows \<Rightarrow>
          (case collect (map (User_from_row now) rows) of
             Inl e \<Rightarrow> Inl e
           | Inr us \<Rightarrow> Inr (map User_to_dict us)))"

definition get_user :: "db \<Rightarrow> int \<Rightarrow> datetime \<Rightarrow> py_error + (string \<times> pyval) list option" where
  "get_user d user_id' now =
     (case User_find_by_id d user_id' now of
        Inl e \<Rightarrow> Inl e
      | Inr found_user \<Rightarrow> Inr (map_option User_to_dict found_user))"

text \<open>
  \<open>create_user\<close>: \<open>now\<close> is the clock read by \<open>User()\<close>, \<open>now'\<close> by \<open>save\<close>.
  \<open>set_password\<close> raises \<open>TypeError\<close> on \<open>None + salt\<close>.
\<close>

definition create_user ::
  "(string \<Rightarrow> string) \<Rightarrow> string \<Rightarrow> db \<Rightarrow> user_data \<Rightarrow> datetime \<Rightarrow> datetime \<Rightarrow>
   py_error + (string \<times> pyval) list \<times> db" where
  "create_user H salt d data now now' =
     (case UserCreate_init data of
        Inl e \<Rightarrow> Inl e
      | Inr user_data \<Rightarrow>
          (let new_user = User_init now;
               new_user = new_user\<lparr>username := uc_username user_data\<rparr>;
               new_user = new_user\<lparr>email := uc_email user_data\<rparr>;
               new_user = new_user\<lparr>first_name := uc_first_name user_data\<rparr>;
               new_user = new_user\<lparr>last_name := uc_last_name user_data\<rparr>;
               new_user = new_user\<lparr>is_active := uc_is_active user_data\<rparr>
           in (case uc_password user_data of
                 None \<Rightarrow> Inl TypeError
               | Some pw \<Rightarrow>
                   (case User_save d (set_password H salt pw new_user) now' of
                      Inl e \<Rightarrow> Inl e
                    | Inr (saved, d') \<Rightarrow> Inr (User_to_dict saved, d')))))"

section \<open>Sample data\<close>

text \<open>
  A database in the shape of the rows that the bootstrap seeds: two live tasks, one
  soft-deleted task and two users. The due dates are spelled with leading zeros, a
  spelling that \<open>isoformat\<close> does not write.
\<close>

definition sample_db :: db where
  "sample_db =
     \<lparr>tasks =
        [\<lparr>r_id = 1, r_title = ''Fix login bug'',
          r_description = Some ''Users cannot login with special characters'',
          r_status = Some ''in_progress'', r_priority = Some ''high'', r_due_date = Some ''0040'',
          r_user_id = Some 1, r_created_at = Some ''10'', r_updated_at = Some ''10'',
          r_deleted_at = None\<rparr>,
         \<lparr>r_id = 2, r_title = ''Update documentation'',
          r_description = Some ''Add API examples to README'',
          r_status = Some ''pending'', r_priority = Some ''medium'', r_due_date = Some ''0045'',
          r_user_id = Some 2, r_created_at = Some ''11'', r_updated_at = Some ''30'',
          r_deleted_at = Some ''30''\<rparr>,
         \<lparr>r_id = 6, r_title = ''Refactor user service'',
          r_description = Some ''Clean up legacy code'',
          r_status = Some ''pending'', r_priority = Some ''medium'', r_due_date = Some ''0042'',
          r_user_id = None, r_created_at = Some ''12'', r_updated_at = Some ''12'',
          r_deleted_at = None\<rparr>],
      tasks_seq = 6,
      users =
        [\<lparr>ur_id = 1, ur_username = ''john_doe'', ur_email = ''john@example.com'',
          ur_password_hash = ''abc123:5e88'', ur_first_name = Some ''John'',
          ur_last_name = Some ''Doe'', ur_is_active = Some 1, ur_created_at = Some ''10'',
          ur_updated_at = Some ''10'', ur_last_login = None, ur_api_key = None\<rparr>,
         \<lparr>ur_id = 2, ur_username = ''jane_smith'', ur_email = ''jane@example.com'',
          ur_password_hash = ''abc123:5e88'', ur_first_name = Some ''Jane'',
          ur_last_name = Some ''Smith'', ur_is_active = Some 1, ur_created_at = Some ''10'',
          ur_updated_at = Some ''10'', ur_last_login = None, ur_api_key = Some ''k9''\<rparr>],
      users_seq = 2\<rparr>"

text \<open>The filter text \<^verbatim>\<open>' OR '1'='1\<close>.\<close>

definition injection :: string where
  "injection = [sq] @ '' OR '' @ [sq] @ ''1'' @ [sq] @ ''='' @ [sq] @ ''1''"

section \<open>Values of the type of a column\<close>








section \<open>Stored tasks that the code can read back\<close>

text \<open>
  What holds of every task row that the bootstrap or \<open>Task.save\<close> has written: the
  rowid is not 0 (\<open>AUTOINCREMENT\<close> starts at 1, and \<open>save\<close> takes an id of 0 for a missing
  one), the rowid and the user id are 64-bit integers, \<open>created_at\<close> is set, every
  timestamp is text that \<open>fromisoformat\<close> reads, and no two rows share an id
  (\<open>PRIMARY KEY\<close>).
\<close>

definition time_ok :: "string option \<Rightarrow> bool" where
  "time_ok x = (case read_time x of Inl _ \<Rightarrow> False | Inr _ \<Rightarrow> True)"

definition int64_opt :: "int option \<Rightarrow> bool" where
  "int64_opt x = (case x of None \<Rightarrow> True | Some n \<Rightarrow> int64 n)"

definition task_row_ok :: "task_row \<Rightarrow> bool" where
  "task_row_ok r =
     (r_id r \<noteq> 0 \<and> int64 (r_id r) \<and> int64_opt (r_user_id r) \<and> time_ok (r_due_date r) \<and>
      (case read_time (r_created_at r) of Inr (Some _) \<Rightarrow> True | _ \<Rightarrow> False) \<and>
      time_ok (r_updated_at r) \<and> time_ok (r_deleted_at r))"

definition tasks_ok :: "db \<Rightarrow> bool" where
  "tasks_ok d = (list_all task_row_ok (tasks d) \<and> distinct (map r_id (tasks d)) \<and> 0 \<le> tasks_seq d)"

text \<open>The table of tasks is full when the rowid after the largest one it ever held is
  no 64-bit integer.\<close>

definition tasks_full :: "db \<Rightarrow> bool" where
  "tasks_full d = (\<not> int64 (next_rowid (tasks_seq d) (map r_id (tasks d))))"

section \<open>Facts about the credential helper\<close>

lemma split_colon_salted:
  "CHR '':'' \<notin> set salt \<Longrightarrow> split_colon (salt @ CHR '':'' # h) = (salt, h)"
  by (induction salt) (auto simp: split_colon_def)

lemma check_password_set_password:
  assumes "CHR '':'' \<notin> set salt"
  shows "check_password H (set_password H salt p u) q = (H (q @ salt) = H (p @ salt))"
  using assms by (simp add: check_password_def set_password_def split_colon_salted)

text \<open>
  C1. The digest \<open>H\<close> is a parameter, and \<open>inj H\<close> says that no two texts have the same
  digest, which is what storing the digest of a password takes for granted. After
  \<open>set_password(p)\<close> with a salt that holds no colon (\<open>token_hex\<close> yields hexadecimal
  digits), \<open>check_password(p)\<close> is true, \<open>check_password(q)\<close> is true exactly when the
  digest of \<open>q + salt\<close> is that of \<open>p + salt\<close>, and so it is false for every \<open>q\<close> other
  than \<open>p\<close>. \<open>check_password\<close> is false whenever the stored \<open>password_hash\<close> is empty or
  holds no colon.
\<close>

theorem check_password_spec:
  "(CHR '':'' \<notin> set salt \<longrightarrow>
      check_password H (set_password H salt p u) p \<and>
      (check_password H (set_password H salt p u) q \<longleftrightarrow> H (q @ salt) = H (p @ salt)) \<and>
      (inj H \<and> q \<noteq> p \<longrightarrow> \<not> check_password H (set_password H salt p u) q)) \<and>
   (password_hash v = [] \<or> CHR '':'' \<notin> set (password_hash v) \<longrightarrow> \<not> check_password H v q)"
proof (intro conjI impI)
  assume salt: "CHR '':'' \<notin> set salt"
  then show "check_password H (set_password H salt p u) p"
    by (simp add: check_password_set_password)
  from salt show "check_password H (set_password H salt p u) q \<longleftrightarrow> H (q @ salt) = H (p @ salt)"
    by (simp add: check_password_set_password)
  assume "inj H \<and> q \<noteq> p"
  then have "H (q @ salt) \<noteq> H (p @ salt)"
    by (simp add: inj_eq)
  with salt show "\<not> check_password H (set_password H salt p u) q"
    by (simp add: check_password_set_password)
next
  assume "password_hash v = [] \<or> CHR '':'' \<notin> set (password_hash v)"
  then show "\<not> check_password H v q"
    by (auto simp: check_password_def)
qed

theorem check_password_spec_witness:
  "inj (rev :: string \<Rightarrow> string) \<and> ''guess'' \<noteq> ''secret'' \<and> CHR '':'' \<notin> set ''a1b2'' \<and>
   check_password rev (set_password rev ''a1b2'' ''secret'' (User_init 0)) ''secret'' \<and>
   \<not> check_password rev (set_password rev ''a1b2'' ''secret'' (User_init 0)) ''guess'' \<and>
   password_hash (User_init 0) = [] \<and>
   \<not> check_password rev (User_init 0) ''guess'' \<and>
   CHR '':'' \<notin> set (password_hash ((User_init 0)\<lparr>password_hash := ''abc''\<rparr>)) \<and>
   \<not> check_password rev ((User_init 0)\<lparr>password_hash := ''abc''\<rparr>) ''secret''"
  using check_password_spec [of "''a1b2''" rev "''secret''" "User_init 0" "''guess''" "User_init 0"]
    check_password_spec [of "''a1b2''" rev "''secret''" "User_init 0" "''secret''"
      "(User_init 0)\<lparr>password_hash := ''abc''\<rparr>"]
  by (simp add: User_init_def)

section \<open>Facts about numerals and the SQL fragment\<close>

lemma digit_cases: "d < 10 \<Longrightarrow> d = 0 \<or> d = 1 \<or> d = 2 \<or> d = 3 \<or> d = 4 \<or> d = 5 \<or> d = 6 \<or> d = 7 \<or> d = 8 \<or> d = (9::nat)"
  by arith

lemma is_digit_digit_char: "d < 10 \<Longrightarrow> is_digit (digit_char d)"
  using digit_cases [of d] by (auto simp: is_digit_def digit_char_def)

lemma digit_val_digit_char: "d < 10 \<Longrightarrow> digit_val (digit_char d) = d"
  using digit_cases [of d] by (auto simp: digit_val_def digit_char_def)

lemma dec_nonempty: "dec n \<noteq> []"
  by (subst dec.simps) simp

lemma dec_digits: "list_all is_digit (dec n)"
  by (induction n rule: dec.induct) (subst dec.simps, simp add: is_digit_digit_char)

lemma digits_val_snoc: "digits_val (ds @ [c]) = 10 * digits_val ds + digit_val c"
  by (simp add: digits_val_def)

lemma digits_val_dec: "digits_val (dec n) = n"
proof (induction n rule: dec.induct)
  case (1 n)
  show ?case
  proof (cases "n < 10")
    case True
    then show ?thesis
      by (subst dec.simps) (simp add: digits_val_def digit_val_digit_char)
  next
    case False
    with 1 show ?thesis
      by (subst dec.simps) (simp add: digits_val_snoc digit_val_digit_char)
  qed
qed

lemma fromisoformat_isoformat: "fromisoformat (isoformat t) = Inr t"
  by (simp add: fromisoformat_def isoformat_def dec_nonempty dec_digits digits_val_dec)

lemma read_time_isoformat: "read_time (Some (isoformat t)) = Inr (Some t)"
  by (simp add: read_time_def fromisoformat_isoformat) (simp add: isoformat_def dec_nonempty)

lemma is_digit_not_space: "is_digit c \<Longrightarrow> \<not> is_space c"
  by (auto simp: is_digit_def is_space_def)

lemma is_digit_not_sq: "is_digit c \<Longrightarrow> c \<noteq> sq"
  by (auto simp: is_digit_def sq_def)

lemma is_digit_word: "is_digit c \<Longrightarrow> is_word c"
  by (simp add: is_word_def)

lemma sq_notin_dec: "sq \<notin> set (dec n)"
  using dec_digits [of n] is_digit_not_sq by (auto simp: list_all_iff)

lemma is_digit_not_nul: "is_digit c \<Longrightarrow> c \<noteq> CHR 0x00"
  by (auto simp: is_digit_def)

lemma plain_dec: "plain (dec n)"
proof -
  have "CHR 0x00 \<notin> set (dec n)"
    using dec_digits [of n] is_digit_not_nul by (auto simp: list_all_iff)
  then show ?thesis
    by (simp add: plain_def sq_notin_dec)
qed

lemma takeWhile_digits: "list_all is_digit ds \<Longrightarrow> \<not> is_digit c \<Longrightarrow> takeWhile is_digit (ds @ c # rest) = ds"
  by (induction ds) auto

lemma dropWhile_digits: "list_all is_digit ds \<Longrightarrow> \<not> is_digit c \<Longrightarrow> dropWhile is_digit (ds @ c # rest) = c # rest"
  by (induction ds) auto

lemma takeWhile_all: "list_all P ds \<Longrightarrow> takeWhile P ds = ds"
  by (induction ds) auto

lemma dropWhile_all: "list_all P ds \<Longrightarrow> dropWhile P ds = []"
  by (induction ds) auto

lemma sql_lex_digits:
  assumes "list_all is_digit ds" "ds \<noteq> []" "\<not> is_word c"
  shows "sql_lex (ds @ c # rest) = tcons (TNum (digits_val ds)) (sql_lex (c # rest))"
proof -
  from assms obtain d ds' where ds: "ds = d # ds'" and d: "is_digit d" and ds': "list_all is_digit ds'"
    by (cases ds) auto
  from assms have c: "\<not> is_digit c"
    using is_digit_word by blast
  show ?thesis
    using d ds' c assms(3)
    by (simp add: ds sql_lex.simps is_digit_not_space takeWhile_digits dropWhile_digits starts_word_def)
qed

lemma sql_lex_digits_end:
  assumes "list_all is_digit ds" "ds \<noteq> []"
  shows "sql_lex ds = Some [TNum (digits_val ds)]"
proof -
  from assms obtain d ds' where ds: "ds = d # ds'" and d: "is_digit d" and ds': "list_all is_digit ds'"
    by (cases ds) auto
  show ?thesis
    using d ds'
    by (simp add: ds sql_lex.simps is_digit_not_space takeWhile_all dropWhile_all starts_word_def tcons_def)
qed

lemma sql_lex_dec: "\<not> is_word c \<Longrightarrow> sql_lex (dec n @ c # rest) = tcons (TNum n) (sql_lex (c # rest))"
  using sql_lex_digits [OF dec_digits dec_nonempty] by (simp add: digits_val_dec)

lemma sql_lex_dec_end: "sql_lex (dec n) = Some [TNum n]"
  using sql_lex_digits_end [OF dec_digits dec_nonempty] by (simp add: digits_val_dec)

lemma read_str_plain:
  "plain s \<Longrightarrow> c \<noteq> sq \<Longrightarrow> read_str (s @ sq # c # rest) = Some (s, c # rest)"
  by (induction s) (auto simp: plain_def sq_def)

lemmas lex_eval = sql_lex.simps is_space_def is_digit_def is_alpha_def is_word_def tcons_def
  word_token_def lower_def sq_def starts_word_def

lemma lex_find_by_id_nat:
  "sql_lex (''SELECT * FROM tasks WHERE id = '' @ dec n @ '' AND deleted_at IS NULL'') =
   Some [KSelect, TStar, KFrom, TId ''tasks'', KWhere, TId ''id'', TEq, TNum n, KAnd, TId ''deleted_at'', KIs, KNull]"
  by (simp add: lex_eval sql_lex_dec)

lemma lex_find_by_id_neg:
  "sql_lex (''SELECT * FROM tasks WHERE id = '' @ CHR ''-'' # dec n @ '' AND deleted_at IS NULL'') =
   Some [KSelect, TStar, KFrom, TId ''tasks'', KWhere, TId ''id'', TEq, TMinus, TNum n, KAnd, TId ''deleted_at'', KIs, KNull]"
  by (simp add: lex_eval sql_lex_dec)

lemmas parse_eval = parse_stmt_def parse_where_opt_def parse_where_def parse_cmp_def
  parse_operand_def parse_order_def

lemma filter_opt_filter: "(\<And>r. p r = Some (P r)) \<Longrightarrow> filter_opt p rows = Some (filter P rows)"
  by (induction rows) auto

lemma task_id_live_holds:
  "where_holds (task_get r) (Some [[CEq (OCol ''id'') (OInt i), CIsNull (OCol ''deleted_at'')]]) =
   Some (r_id r = i \<and> r_deleted_at r = None)"
  by (simp add: where_holds_def eval_where_def eval_and_def task_get_def sql_text_def tri_of_bool_def
      split: option.split)

lemma select_task_by_id:
  "sql_select ''tasks'' task_cols task_get rows
     (''SELECT * FROM tasks WHERE id = '' @ str_int i @ '' AND deleted_at IS NULL'') =
   Some (filter (\<lambda>r. r_id r = i \<and> r_deleted_at r = None) rows)"
proof (cases "i < 0")
  case True
  then have "sql_lex (''SELECT * FROM tasks WHERE id = '' @ str_int i @ '' AND deleted_at IS NULL'') =
    Some [KSelect, TStar, KFrom, TId ''tasks'', KWhere, TId ''id'', TEq, TMinus, TNum (nat (- i)),
          KAnd, TId ''deleted_at'', KIs, KNull]"
    by (simp add: str_int_def lex_eval sql_lex_dec)
  moreover have "parse_stmt [KSelect, TStar, KFrom, TId ''tasks'', KWhere, TId ''id'', TEq, TMinus,
          TNum (nat (- i)), KAnd, TId ''deleted_at'', KIs, KNull] =
    Some (Select ''tasks'' (Some [[CEq (OCol ''id'') (OInt i), CIsNull (OCol ''deleted_at'')]]) None)"
    using True by (simp add: parse_eval)
  ultimately show ?thesis
    by (simp add: sql_select_def where_cols_def task_cols_def order_rows_def
        task_id_live_holds filter_opt_filter)
next
  case False
  then have "sql_lex (''SELECT * FROM tasks WHERE id = '' @ str_int i @ '' AND deleted_at IS NULL'') =
    Some [KSelect, TStar, KFrom, TId ''tasks'', KWhere, TId ''id'', TEq, TNum (nat i),
          KAnd, TId ''deleted_at'', KIs, KNull]"
    by (simp add: str_int_def lex_eval sql_lex_dec)
  moreover have "parse_stmt [KSelect, TStar, KFrom, TId ''tasks'', KWhere, TId ''id'', TEq,
          TNum (nat i), KAnd, TId ''deleted_at'', KIs, KNull] =
    Some (Select ''tasks'' (Some [[CEq (OCol ''id'') (OInt i), CIsNull (OCol ''deleted_at'')]]) None)"
    using False by (simp add: parse_eval)
  ultimately show ?thesis
    by (simp add: sql_select_def where_cols_def task_cols_def order_rows_def
        task_id_live_holds filter_opt_filter)
qed

section \<open>Saving, finding and creating tasks\<close>

lemma Task_find_by_id_eq:
  "Task_find_by_id d i now =
     (case filter (\<lambda>r. r_id r = i \<and> r_deleted_at r = None) (tasks d) of
        [] \<Rightarrow> Inr None
      | r # _ \<Rightarrow> (case Task_from_row now r of Inl e \<Rightarrow> Inl e | Inr t \<Rightarrow> Inr (Some t)))"
  unfolding Task_find_by_id_def select_tasks_def select_task_by_id
  by (simp add: fetchone_def split: list.split)

lemma fold_max_ge: "(seq::int) \<le> fold max ids seq"
  by (induction ids arbitrary: seq) (auto intro: order_trans [OF max.cobounded2])

lemma fold_max_mem: "(i::int) \<in> set ids \<Longrightarrow> i \<le> fold max ids seq"
proof (induction ids arbitrary: seq)
  case Nil
  then show ?case by simp
next
  case (Cons a ids)
  show ?case
  proof (cases "i = a")
    case True
    have "a \<le> max a seq" by simp
    also have "\<dots> \<le> fold max ids (max a seq)" by (rule fold_max_ge)
    finally show ?thesis using True by simp
  next
    case False
    with Cons show ?thesis by simp
  qed
qed

lemma next_rowid_fresh: "next_rowid seq ids \<notin> set ids"
  using fold_max_mem [of "next_rowid seq ids" ids seq] by (auto simp: next_rowid_def)

lemma next_rowid_gt: "seq < next_rowid seq ids"
  using fold_max_ge [of seq ids] by (simp add: next_rowid_def)


lemma read_time_map_isoformat: "read_time (map_option isoformat x) = Inr x"
  by (cases x) (simp_all add: read_time_def read_time_isoformat [unfolded read_time_def, simplified])

lemma time_ok_isoformat: "time_ok (Some (isoformat t))"
  by (simp add: time_ok_def read_time_isoformat)

lemma time_ok_map_isoformat: "time_ok (map_option isoformat x)"
  by (simp add: time_ok_def read_time_map_isoformat)

subsection \<open>What the columns take\<close>





lemma time_ok_None: "time_ok None"
  by (simp add: time_ok_def read_time_def)

lemma iso_if_time_ok: "iso_if v = Inr du \<Longrightarrow> time_ok du"
  by (cases v) (auto simp: iso_if_def time_ok_isoformat time_ok_None split: if_splits)

lemma int_column_int64: "int_column v = Inr us \<Longrightarrow> int64_opt us"
  by (cases v) (auto simp: int_column_def int64_opt_def int64_def split: if_splits)

lemma task_columns_ok:
  "task_columns t = Inr (ti, de, st, pr, du, us) \<Longrightarrow> time_ok du \<and> int64_opt us"
  by (auto simp: task_columns_def iso_if_time_ok int_column_int64 split: sum.splits)








subsection \<open>Saving a new task\<close>


lemma Task_save_new:
  assumes "\<not> id_set (tid t)" "Task_save d t now = Inr (t', d')"
  shows "\<exists>ti de st pr du us.
    task_columns t = Inr (Some ti, de, st, pr, du, us) \<and> \<not> tasks_full d \<and>
    t' = t\<lparr>tid := Some (next_rowid (tasks_seq d) (map r_id (tasks d)))\<rparr> \<and>
    d' = d\<lparr>tasks := tasks d @
            [\<lparr>r_id = next_rowid (tasks_seq d) (map r_id (tasks d)), r_title = ti,
              r_description = de, r_status = st, r_priority = pr,
              r_due_date = du, r_user_id = us,
              r_created_at = Some (isoformat (created_at t)),
              r_updated_at = Some (isoformat now), r_deleted_at = None\<rparr>],
           tasks_seq := next_rowid (tasks_seq d) (map r_id (tasks d))\<rparr>"
  using assms
  by (auto simp: Task_save_def tasks_full_def Let_def split: sum.splits option.splits if_splits)





subsection \<open>Creating a task\<close>







subsection \<open>Validation\<close>







section \<open>Updating a task\<close>

lemma filter_distinct_id:
  "distinct (map f xs) \<Longrightarrow> r \<in> set xs \<Longrightarrow> P r \<Longrightarrow> filter (\<lambda>x. f x = f r \<and> P x) xs = [r]"
proof (induction xs)
  case Nil
  then show ?case by simp
next
  case (Cons a xs)
  show ?case
  proof (cases "a = r")
    case True
    with Cons.prems have "\<forall>x \<in> set xs. f x \<noteq> f r"
      by (auto simp: image_iff)
    then have "filter (\<lambda>x. f x = f r \<and> P x) xs = []"
      by (simp add: filter_empty_conv)
    with True Cons.prems show ?thesis by simp
  next
    case False
    with Cons.prems have "r \<in> set xs" "f a \<noteq> f r"
      by (auto simp: image_iff)
    with Cons show ?thesis by simp
  qed
qed

lemma Task_from_row_ok:
  assumes "task_row_ok r"
  shows "\<exists>du c up de.
     read_time (r_due_date r) = Inr du \<and> read_time (r_created_at r) = Inr (Some c) \<and>
     read_time (r_updated_at r) = Inr up \<and> read_time (r_deleted_at r) = Inr de \<and>
     (\<forall>now. Task_from_row now r =
       Inr \<lparr>tid = Some (r_id r), title = VStr (r_title r), description = obj_str (r_description r),
            status = obj_str (r_status r), priority = obj_str (r_priority r),
            due_date = obj_time du, user_id = obj_int (r_user_id r),
            created_at = c, updated_at = up, deleted_at = de\<rparr>)"
  using assms
  by (auto simp: task_row_ok_def time_ok_def Task_from_row_def Task_new_def
      split: sum.splits option.splits)




lemma Task_find_by_id_row:
  assumes "distinct (map r_id (tasks d))" "r \<in> set (tasks d)" "r_deleted_at r = None"
  shows "Task_find_by_id d (r_id r) now =
     (case Task_from_row now r of Inl e \<Rightarrow> Inl e | Inr t \<Rightarrow> Inr (Some t))"
  using filter_distinct_id [of r_id "tasks d" r "\<lambda>x. r_deleted_at x = None"] assms
  by (simp add: Task_find_by_id_eq)



lemma update_task_example:
  "map_sum id fst (update_task sample_db 1 [''status'' \<mapsto> VStr ''completed''] 98 99) =
   Inr (Some [(''id'', VInt 1), (''title'', VStr ''Fix login bug''),
        (''description'', VStr ''Users cannot login with special characters''),
        (''status'', VStr ''completed''), (''priority'', VStr ''high''),
        (''due_date'', VStr ''40''), (''user_id'', VInt 1),
        (''created_at'', VStr ''10''), (''updated_at'', VStr ''10'')])"
  by code_simp



section \<open>Listing tasks and looking up by text\<close>

lemma task_live_holds:
  "where_holds (task_get r) (Some [[CIsNull (OCol ''deleted_at'')]]) = Some (r_deleted_at r = None)"
  by (simp add: where_holds_def eval_where_def eval_and_def task_get_def sql_text_def tri_of_bool_def
      split: option.split)

lemma select_live_tasks:
  "sql_select ''tasks'' task_cols task_get rows
     ''SELECT * FROM tasks WHERE deleted_at IS NULL ORDER BY created_at DESC'' =
   Some (order_rows task_get (Some (''created_at'', True)) (filter (\<lambda>r. r_deleted_at r = None) rows))"
proof -
  have "sql_lex ''SELECT * FROM tasks WHERE deleted_at IS NULL ORDER BY created_at DESC'' =
    Some [KSelect, TStar, KFrom, TId ''tasks'', KWhere, TId ''deleted_at'', KIs, KNull,
          KOrder, KBy, TId ''created_at'', KDesc]"
    by (simp add: lex_eval)
  moreover have "parse_stmt [KSelect, TStar, KFrom, TId ''tasks'', KWhere, TId ''deleted_at'', KIs, KNull,
          KOrder, KBy, TId ''created_at'', KDesc] =
    Some (Select ''tasks'' (Some [[CIsNull (OCol ''deleted_at'')]]) (Some (''created_at'', True)))"
    by (simp add: parse_eval)
  ultimately show ?thesis
    by (simp add: sql_select_def where_cols_def task_cols_def task_live_holds filter_opt_filter)
qed

text \<open>
  C10. \<open>Task.find_all\<close> treats every filter value that is false in Python (\<open>None\<close>,
  \<open>0\<close>, the empty string, \<open>False\<close>) as no filter: the result is that of \<open>find_all\<close>
  without filters, that is all the tasks that are not deleted, latest first, whatever
  their user id and status are.
\<close>

theorem find_all_falsy_filters:
  "\<not> truthy user_id' \<and> \<not> truthy status' \<longrightarrow>
     Task_find_all d user_id' status' now = Task_find_all d PyNone PyNone now \<and>
     Task_find_all d user_id' status' now =
       collect (map (Task_from_row now)
         (order_rows task_get (Some (''created_at'', True))
            (filter (\<lambda>r. r_deleted_at r = None) (tasks d))))"
  by (simp add: Task_find_all_def select_tasks_def select_live_tasks)

theorem find_all_falsy_filters_witness:
  "\<not> truthy (PyInt 0) \<and> \<not> truthy (PyStr []) \<and>
   Task_find_all sample_db (PyInt 0) (PyStr []) 99 = Task_find_all sample_db PyNone PyNone 99 \<and>
   Task_find_all sample_db (PyInt 0) (PyStr []) 99 =
     Inr [\<lparr>tid = Some 6, title = VStr ''Refactor user service'',
           description = VStr ''Clean up legacy code'',
           status = VStr ''pending'', priority = VStr ''medium'',
           due_date = VTime 42, user_id = VNone, created_at = 12,
           updated_at = Some 12, deleted_at = None\<rparr>,
          \<lparr>tid = Some 1, title = VStr ''Fix login bug'',
           description = VStr ''Users cannot login with special characters'',
           status = VStr ''in_progress'', priority = VStr ''high'',
           due_date = VTime 40, user_id = VInt 1, created_at = 10,
           updated_at = Some 10, deleted_at = None\<rparr>]"
proof -
  have "Task_find_all sample_db PyNone PyNone 99 =
     Inr [\<lparr>tid = Some 6, title = VStr ''Refactor user service'',
           description = VStr ''Clean up legacy code'',
           status = VStr ''pending'', priority = VStr ''medium'',
           due_date = VTime 42, user_id = VNone, created_at = 12,
           updated_at = Some 12, deleted_at = None\<rparr>,
          \<lparr>tid = Some 1, title = VStr ''Fix login bug'',
           description = VStr ''Users cannot login with special characters'',
           status = VStr ''in_progress'', priority = VStr ''high'',
           due_date = VTime 40, user_id = VInt 1, created_at = 10,
           updated_at = Some 10, deleted_at = None\<rparr>]"
    by code_simp
  then show ?thesis
    using find_all_falsy_filters [of "PyInt 0" "PyStr []" sample_db 99] by simp
qed

subsection \<open>Soft delete, and filters without a quote\<close>

text \<open>
  What the finders do with the values that do not change the text of the query around
  them: an integer, and a text that is \<open>plain\<close>. \<open>Task.delete\<close> keeps the row
  and stamps it; \<open>find_by_id\<close> and \<open>find_all\<close> then select on equality and leave out
  the rows with a \<open>deleted_at\<close>; the reachable-state conditions \<open>tasks_ok\<close> are kept by
  \<open>save\<close> and \<open>delete\<close>.
\<close>

lemma update_opt_map:
  assumes "\<And>r. p r = Some (P r)" "\<And>r. P r \<Longrightarrow> f r = Some (g r)"
  shows "update_opt p f rows = Some (map (\<lambda>r. if P r then g r else r) rows)"
  by (induction rows) (simp_all add: assms)

lemma task_id_holds:
  "where_holds (task_get r) (Some [[CEq (OCol ''id'') (OInt i)]]) = Some (r_id r = i)"
  by (simp add: where_holds_def eval_where_def eval_and_def task_get_def tri_of_bool_def)

lemma sq_facts: "\<not> is_space sq" "\<not> is_digit sq" "\<not> is_alpha sq" "CHR '' '' \<noteq> sq"
  by (simp_all add: sq_def is_space_def is_digit_def is_alpha_def)

lemma lex_delete_tail: "sql_lex (CHR 0x0A # ''        '') = Some []"
  by (simp add: sql_lex.simps is_space_def)

lemma lex_delete_where:
  "sql_lex ('' WHERE id = '' @ str_int i @ [CHR 0x0A] @ ''        '') =
   Some (KWhere # TId ''id'' # TEq # (if i < 0 then [TMinus, TNum (nat (- i))] else [TNum (nat i)]))"
  by (simp add: str_int_def lex_eval sql_lex_dec)

lemma lex_delete:
  "sql_lex ([CHR 0x0A] @ ''            UPDATE tasks SET deleted_at = '' @ [sq] @ isoformat now @ [sq] @
            '' WHERE id = '' @ str_int i @ [CHR 0x0A] @ ''        '') =
   Some ([KUpdate, TId ''tasks'', KSet, TId ''deleted_at'', TEq, TStr (isoformat now), KWhere, TId ''id'', TEq] @
         (if i < 0 then [TMinus, TNum (nat (- i))] else [TNum (nat i)]))"
proof -
  have str: "read_str (isoformat now @ sq # CHR '' '' # rest) = Some (isoformat now, CHR '' '' # rest)" for rest
    by (rule read_str_plain) (simp_all add: isoformat_def plain_dec sq_facts)
  show ?thesis
    by (simp add: lex_eval str_int_def sql_lex_dec str [unfolded sq_def])
qed

lemma sql_update_delete:
  "sql_update ''tasks'' task_cols task_get task_set rows
     ([CHR 0x0A] @ ''            UPDATE tasks SET deleted_at = '' @ [sq] @ isoformat now @ [sq] @
      '' WHERE id = '' @ str_int i @ [CHR 0x0A] @ ''        '') =
   Some (map (\<lambda>r. if r_id r = i then r\<lparr>r_deleted_at := Some (isoformat now)\<rparr> else r) rows)"
  unfolding sql_update_def lex_delete
  by (cases "i < 0")
     (simp_all add: parse_eval task_cols_def where_cols_def task_id_holds task_set_def as_text_def
      update_opt_map [where P = "\<lambda>r. r_id r = i" and g = "\<lambda>r. r\<lparr>r_deleted_at := Some (isoformat now)\<rparr>"])

lemma Task_delete_eq:
  assumes "tid t = Some i"
  shows "Task_delete d t now now' =
     Inr (t\<lparr>deleted_at := Some now'\<rparr>,
          d\<lparr>tasks := map (\<lambda>r. if r_id r = i then r\<lparr>r_deleted_at := Some (isoformat now)\<rparr> else r) (tasks d)\<rparr>)"
  unfolding Task_delete_def Let_def
  by (simp only: assms opt_int_def option.case py_str.simps sql_update_delete)

lemma tasks_ok_empty: "tasks_ok empty_db"
  by (simp add: tasks_ok_def empty_db_def)

lemma tasks_ok_save:
  assumes "tasks_ok d" "Task_save d t now = Inr (t', d')"
  shows "tasks_ok d'"
proof (cases "id_set (tid t)")
  case True
  from assms(2) obtain ti de st pr du us where cols: "task_columns t = Inr (ti, de, st, pr, du, us)"
    by (auto simp: Task_save_def split: sum.splits)
  from task_columns_ok [OF cols] have du: "time_ok du" and us: "int64_opt us"
    by simp_all
  let ?f = "\<lambda>r. if Some (r_id r) = tid t
                 then r\<lparr>r_title := the ti, r_description := de, r_status := st, r_priority := pr,
                        r_due_date := du, r_user_id := us, r_updated_at := Some (isoformat now)\<rparr>
                 else r"
  from assms(2) True cols have d': "d' = d \<or> d' = d\<lparr>tasks := map ?f (tasks d)\<rparr>"
    by (auto simp: Task_save_def split: option.splits if_splits)
  have okf: "task_row_ok r \<Longrightarrow>
      task_row_ok (r\<lparr>r_title := the ti, r_description := de, r_status := st, r_priority := pr,
                        r_due_date := du, r_user_id := us, r_updated_at := Some (isoformat now)\<rparr>)" for r
    using du us by (simp add: task_row_ok_def time_ok_isoformat)
  have ids: "map (r_id \<circ> ?f) (tasks d) = map r_id (tasks d)"
    by (rule map_cong [OF refl]) simp
  from assms(1) have "list_all task_row_ok (map ?f (tasks d))"
    by (auto simp: tasks_ok_def list_all_iff okf)
  moreover from assms(1) have "distinct (map r_id (map ?f (tasks d)))"
    by (simp add: tasks_ok_def ids)
  moreover from assms(1) have "0 \<le> tasks_seq d"
    by (simp add: tasks_ok_def)
  ultimately have "tasks_ok (d\<lparr>tasks := map ?f (tasks d)\<rparr>)"
    by (simp add: tasks_ok_def)
  with d' assms(1) show ?thesis
    by auto
next
  case False
  from Task_save_new [OF False assms(2)] obtain ti de st pr du us where
    cols: "task_columns t = Inr (Some ti, de, st, pr, du, us)" and room: "\<not> tasks_full d"
    and d': "d' = d\<lparr>tasks := tasks d @
            [\<lparr>r_id = next_rowid (tasks_seq d) (map r_id (tasks d)), r_title = ti,
              r_description = de, r_status = st, r_priority = pr,
              r_due_date = du, r_user_id = us,
              r_created_at = Some (isoformat (created_at t)),
              r_updated_at = Some (isoformat now), r_deleted_at = None\<rparr>],
           tasks_seq := next_rowid (tasks_seq d) (map r_id (tasks d))\<rparr>"
    by blast
  from task_columns_ok [OF cols] have du: "time_ok du" and us: "int64_opt us"
    by simp_all
  from assms(1) have seq: "0 \<le> tasks_seq d"
    by (simp add: tasks_ok_def)
  with next_rowid_gt [of "tasks_seq d" "map r_id (tasks d)"]
  have pos: "0 < next_rowid (tasks_seq d) (map r_id (tasks d))"
    by simp
  from room have fits: "int64 (next_rowid (tasks_seq d) (map r_id (tasks d)))"
    by (simp add: tasks_full_def)
  have "task_row_ok \<lparr>r_id = next_rowid (tasks_seq d) (map r_id (tasks d)), r_title = ti,
              r_description = de, r_status = st, r_priority = pr,
              r_due_date = du, r_user_id = us,
              r_created_at = Some (isoformat (created_at t)),
              r_updated_at = Some (isoformat now), r_deleted_at = None\<rparr>"
    using pos fits du us
    by (simp add: task_row_ok_def time_ok_isoformat read_time_isoformat) (simp add: time_ok_def read_time_def)
  with assms(1) pos next_rowid_fresh [of "tasks_seq d" "map r_id (tasks d)"] show ?thesis
    by (simp add: tasks_ok_def d')
qed

lemma tasks_ok_delete:
  assumes "tasks_ok d" "tid t = Some i" "Task_delete d t now now' = Inr (t', d')"
  shows "tasks_ok d'"
proof -
  let ?f = "\<lambda>r. if r_id r = i then r\<lparr>r_deleted_at := Some (isoformat now)\<rparr> else r"
  from assms(3) have d': "d' = d\<lparr>tasks := map ?f (tasks d)\<rparr>"
    by (simp add: Task_delete_eq [OF assms(2)])
  have ids: "map (r_id \<circ> ?f) (tasks d) = map r_id (tasks d)"
    by (rule map_cong [OF refl]) simp
  have okd: "task_row_ok r \<Longrightarrow> task_row_ok (r\<lparr>r_deleted_at := Some (isoformat now)\<rparr>)" for r
    by (simp add: task_row_ok_def time_ok_isoformat)
  from assms(1) have "list_all task_row_ok (map ?f (tasks d))"
    by (auto simp: tasks_ok_def list_all_iff okd)
  moreover from assms(1) have "distinct (map r_id (map ?f (tasks d)))"
    by (simp add: tasks_ok_def ids)
  moreover from assms(1) have "0 \<le> tasks_seq d"
    by (simp add: tasks_ok_def)
  ultimately show ?thesis
    by (simp add: tasks_ok_def d')
qed

lemma Task_find_by_id_live:
  assumes "Task_find_by_id d i now = Inr (Some t)"
  shows "\<exists>r \<in> set (tasks d). r_id r = i \<and> r_deleted_at r = None \<and> Task_from_row now r = Inr t"
proof -
  from assms obtain r rs where f: "filter (\<lambda>r. r_id r = i \<and> r_deleted_at r = None) (tasks d) = r # rs"
    and t: "Task_from_row now r = Inr t"
    by (auto simp: Task_find_by_id_eq split: list.splits sum.splits)
  from f have "r \<in> set (filter (\<lambda>r. r_id r = i \<and> r_deleted_at r = None) (tasks d))"
    by simp
  with t show ?thesis
    by auto
qed

lemma Task_from_row_live:
  "Task_from_row now r = Inr t \<Longrightarrow> r_deleted_at r = None \<Longrightarrow> deleted_at t = None \<and> tid t = Some (r_id r)"
  by (auto simp: Task_from_row_def Task_new_def read_time_def split: sum.splits)

lemma set_insert_by: "set (insert_by le x xs) = insert x (set xs)"
  by (induction xs) auto

lemma set_sort_by: "set (sort_by le xs) = set xs"
  by (induction xs) (simp_all add: sort_by_def set_insert_by)

lemma set_order_rows: "set (order_rows getc ob rows) = set rows"
  by (simp add: order_rows_def set_sort_by split: option.split prod.split)

lemma collect_member:
  "collect xs = Inr ys \<Longrightarrow> y \<in> set ys \<Longrightarrow> Inr y \<in> set xs"
  by (induction xs arbitrary: ys) (auto split: sum.splits)

lemma Task_find_all_plain_live:
  assumes "\<not> truthy u" "\<not> truthy s" "Task_find_all d u s now = Inr ts" "t \<in> set ts"
  shows "\<exists>r \<in> set (tasks d). r_deleted_at r = None \<and> Task_from_row now r = Inr t \<and> deleted_at t = None"
proof -
  from assms(1-3) have "collect (map (Task_from_row now)
         (order_rows task_get (Some (''created_at'', True))
            (filter (\<lambda>r. r_deleted_at r = None) (tasks d)))) = Inr ts"
    by (simp add: Task_find_all_def select_tasks_def select_live_tasks)
  from collect_member [OF this assms(4)] obtain r
    where "r \<in> set (tasks d)" "r_deleted_at r = None" "Task_from_row now r = Inr t"
    by (auto simp: set_order_rows)
  with Task_from_row_live [of now r t] show ?thesis
    by blast
qed

lemma delete_task_soft:
  assumes ok: "tasks_ok d" and r: "r \<in> set (tasks d)" "r_deleted_at r = None"
  shows "\<exists>d'. delete_task d (r_id r) now now' now'' = Inr (True, d') \<and>
           tasks d' = map (\<lambda>x. if r_id x = r_id r then x\<lparr>r_deleted_at := Some (isoformat now')\<rparr> else x) (tasks d) \<and>
           r\<lparr>r_deleted_at := Some (isoformat now')\<rparr> \<in> set (tasks d') \<and>
           Task_find_by_id d' (r_id r) t = Inr None"
proof -
  let ?f = "\<lambda>x. if r_id x = r_id r then x\<lparr>r_deleted_at := Some (isoformat now')\<rparr> else x"
  let ?d' = "d\<lparr>tasks := map ?f (tasks d)\<rparr>"
  from ok have dist: "distinct (map r_id (tasks d))"
    by (simp add: tasks_ok_def)
  from ok r(1) have "task_row_ok r"
    by (simp add: tasks_ok_def list_all_iff)
  from Task_from_row_ok [OF this] obtain found where found: "Task_from_row now r = Inr found"
    "tid found = Some (r_id r)"
    by fastforce
  then have find: "Task_find_by_id d (r_id r) now = Inr (Some found)"
    by (simp add: Task_find_by_id_row [OF dist r])
  have del: "delete_task d (r_id r) now now' now'' = Inr (True, ?d')"
    by (simp add: delete_task_def find Task_delete_eq [OF found(2)])
  have "filter (\<lambda>x. r_id x = r_id r \<and> r_deleted_at x = None) (map ?f (tasks d)) = []"
    by (auto simp: filter_empty_conv)
  then have gone: "Task_find_by_id ?d' (r_id r) t = Inr None"
    by (simp add: Task_find_by_id_eq)
  have "?f r \<in> set (map ?f (tasks d))"
    using r(1) by (rule imageI [of r "set (tasks d)" ?f, folded set_map])
  then have "r\<lparr>r_deleted_at := Some (isoformat now')\<rparr> \<in> set (tasks ?d')"
    by simp
  with del gone show ?thesis
    by (intro exI [of _ ?d']) simp
qed

lemma read_str_plain_end: "plain s \<Longrightarrow> read_str (s @ [sq]) = Some (s, [])"
  by (induction s) (auto simp: plain_def sq_def)

lemma user_text_holds:
  "where_holds (user_get r) (Some [[CEq (OCol ''username'') (OText x)]]) = Some (ur_username r = x)"
  "where_holds (user_get r) (Some [[CEq (OCol ''email'') (OText x)]]) = Some (ur_email r = x)"
  "where_holds (user_get r) (Some [[CEq (OCol ''api_key'') (OText x)]]) = Some (ur_api_key r = Some x)"
  by (simp_all add: where_holds_def eval_where_def eval_and_def user_get_def sql_text_def tri_of_bool_def
      split: option.split)

lemma select_user_by_text:
  assumes "plain x"
  shows "sql_select ''users'' user_cols user_get rows
           (''SELECT * FROM users WHERE username = '' @ [sq] @ x @ [sq]) =
         Some (filter (\<lambda>r. ur_username r = x) rows)"
    and "sql_select ''users'' user_cols user_get rows
           (''SELECT * FROM users WHERE email = '' @ [sq] @ x @ [sq]) =
         Some (filter (\<lambda>r. ur_email r = x) rows)"
    and "sql_select ''users'' user_cols user_get rows
           (''SELECT * FROM users WHERE api_key = '' @ [sq] @ x @ [sq]) =
         Some (filter (\<lambda>r. ur_api_key r = Some x) rows)"
proof -
  have str: "read_str (x @ [CHR 0x27]) = Some (x, [])"
    using read_str_plain_end [OF assms] by (simp add: sq_def)
  have "sql_lex (''SELECT * FROM users WHERE username = '' @ [sq] @ x @ [sq]) =
    Some [KSelect, TStar, KFrom, TId ''users'', KWhere, TId ''username'', TEq, TStr x]"
    by (simp add: lex_eval str)
  then show "sql_select ''users'' user_cols user_get rows
           (''SELECT * FROM users WHERE username = '' @ [sq] @ x @ [sq]) =
         Some (filter (\<lambda>r. ur_username r = x) rows)"
    unfolding sql_select_def
    by (simp add: parse_eval where_cols_def user_cols_def order_rows_def user_text_holds filter_opt_filter)
  have "sql_lex (''SELECT * FROM users WHERE email = '' @ [sq] @ x @ [sq]) =
    Some [KSelect, TStar, KFrom, TId ''users'', KWhere, TId ''email'', TEq, TStr x]"
    by (simp add: lex_eval str)
  then show "sql_select ''users'' user_cols user_get rows
           (''SELECT * FROM users WHERE email = '' @ [sq] @ x @ [sq]) =
         Some (filter (\<lambda>r. ur_email r = x) rows)"
    unfolding sql_select_def
    by (simp add: parse_eval where_cols_def user_cols_def order_rows_def user_text_holds filter_opt_filter)
  have "sql_lex (''SELECT * FROM users WHERE api_key = '' @ [sq] @ x @ [sq]) =
    Some [KSelect, TStar, KFrom, TId ''users'', KWhere, TId ''api_key'', TEq, TStr x]"
    by (simp add: lex_eval str)
  then show "sql_select ''users'' user_cols user_get rows
           (''SELECT * FROM users WHERE api_key = '' @ [sq] @ x @ [sq]) =
         Some (filter (\<lambda>r. ur_api_key r = Some x) rows)"
    unfolding sql_select_def
    by (simp add: parse_eval where_cols_def user_cols_def order_rows_def user_text_holds filter_opt_filter)
qed

lemma User_find_by_text_plain:
  assumes "plain x"
  shows "User_find_by_username d x now =
           (case filter (\<lambda>r. ur_username r = x) (users d) of
              [] \<Rightarrow> Inr None
            | r # _ \<Rightarrow> (case User_from_row now r of Inl e \<Rightarrow> Inl e | Inr u \<Rightarrow> Inr (Some u)))"
    and "User_find_by_email d x now =
           (case filter (\<lambda>r. ur_email r = x) (users d) of
              [] \<Rightarrow> Inr None
            | r # _ \<Rightarrow> (case User_from_row now r of Inl e \<Rightarrow> Inl e | Inr u \<Rightarrow> Inr (Some u)))"
    and "User_find_by_api_key d x now =
           (case filter (\<lambda>r. ur_api_key r = Some x) (users d) of
              [] \<Rightarrow> Inr None
            | r # _ \<Rightarrow> (case User_from_row now r of Inl e \<Rightarrow> Inl e | Inr u \<Rightarrow> Inr (Some u)))"
  unfolding User_find_by_username_def User_find_by_email_def User_find_by_api_key_def User_find_def
    select_users_def select_user_by_text [OF assms]
  by (simp_all add: fetchone_def split: list.split)

lemma task_filter_holds:
  "where_holds (task_get r) (Some [[CIsNull (OCol ''deleted_at''), CEq (OCol ''status'') (OText x)]]) =
   Some (r_deleted_at r = None \<and> r_status r = Some x)"
  "where_holds (task_get r) (Some [[CIsNull (OCol ''deleted_at''), CEq (OCol ''user_id'') (OInt n)]]) =
   Some (r_deleted_at r = None \<and> r_user_id r = Some n)"
  "where_holds (task_get r) (Some [[CIsNull (OCol ''deleted_at''), CEq (OCol ''user_id'') (OInt n),
      CEq (OCol ''status'') (OText x)]]) =
   Some (r_deleted_at r = None \<and> r_user_id r = Some n \<and> r_status r = Some x)"
  by (simp_all add: where_holds_def eval_where_def eval_and_def task_get_def sql_text_def sql_int_def
      tri_of_bool_def split: option.split)

lemma select_tasks_by_status:
  assumes "plain x"
  shows "sql_select ''tasks'' task_cols task_get rows
     (''SELECT * FROM tasks WHERE deleted_at IS NULL'' @ '' AND status = '' @ [sq] @ x @ [sq] @
      '' ORDER BY created_at DESC'') =
   Some (order_rows task_get (Some (''created_at'', True))
     (filter (\<lambda>r. r_deleted_at r = None \<and> r_status r = Some x) rows))"
proof -
  have str: "read_str (x @ CHR 0x27 # CHR '' '' # rest) = Some (x, CHR '' '' # rest)" for rest
    using read_str_plain [OF assms, of "CHR '' ''" rest] by (simp add: sq_def)
  have "sql_lex (''SELECT * FROM tasks WHERE deleted_at IS NULL'' @ '' AND status = '' @ [sq] @ x @ [sq] @
      '' ORDER BY created_at DESC'') =
    Some [KSelect, TStar, KFrom, TId ''tasks'', KWhere, TId ''deleted_at'', KIs, KNull, KAnd,
          TId ''status'', TEq, TStr x, KOrder, KBy, TId ''created_at'', KDesc]"
    by (simp add: lex_eval str)
  then show ?thesis
    unfolding sql_select_def
    by (simp add: parse_eval where_cols_def task_cols_def task_filter_holds filter_opt_filter)
qed

lemma select_tasks_by_user:
  "sql_select ''tasks'' task_cols task_get rows
     (''SELECT * FROM tasks WHERE deleted_at IS NULL'' @ '' AND user_id = '' @ str_int n @
      '' ORDER BY created_at DESC'') =
   Some (order_rows task_get (Some (''created_at'', True))
     (filter (\<lambda>r. r_deleted_at r = None \<and> r_user_id r = Some n) rows))"
proof -
  have "sql_lex (''SELECT * FROM tasks WHERE deleted_at IS NULL'' @ '' AND user_id = '' @ str_int n @
      '' ORDER BY created_at DESC'') =
    Some ([KSelect, TStar, KFrom, TId ''tasks'', KWhere, TId ''deleted_at'', KIs, KNull, KAnd,
          TId ''user_id'', TEq] @ (if n < 0 then [TMinus, TNum (nat (- n))] else [TNum (nat n)]) @
          [KOrder, KBy, TId ''created_at'', KDesc])"
    by (simp add: lex_eval str_int_def sql_lex_dec)
  then show ?thesis
    unfolding sql_select_def
    by (cases "n < 0")
       (simp_all add: parse_eval where_cols_def task_cols_def task_filter_holds filter_opt_filter)
qed

lemma select_tasks_by_user_status:
  assumes "plain x"
  shows "sql_select ''tasks'' task_cols task_get rows
     (''SELECT * FROM tasks WHERE deleted_at IS NULL'' @ '' AND user_id = '' @ str_int n @
      '' AND status = '' @ [sq] @ x @ [sq] @ '' ORDER BY created_at DESC'') =
   Some (order_rows task_get (Some (''created_at'', True))
     (filter (\<lambda>r. r_deleted_at r = None \<and> r_user_id r = Some n \<and> r_status r = Some x) rows))"
proof -
  have str: "read_str (x @ CHR 0x27 # CHR '' '' # rest) = Some (x, CHR '' '' # rest)" for rest
    using read_str_plain [OF assms, of "CHR '' ''" rest] by (simp add: sq_def)
  have "sql_lex (''SELECT * FROM tasks WHERE deleted_at IS NULL'' @ '' AND user_id = '' @ str_int n @
      '' AND status = '' @ [sq] @ x @ [sq] @ '' ORDER BY created_at DESC'') =
    Some ([KSelect, TStar, KFrom, TId ''tasks'', KWhere, TId ''deleted_at'', KIs, KNull, KAnd,
          TId ''user_id'', TEq] @ (if n < 0 then [TMinus, TNum (nat (- n))] else [TNum (nat n)]) @
          [KAnd, TId ''status'', TEq, TStr x, KOrder, KBy, TId ''created_at'', KDesc])"
    by (simp add: lex_eval str_int_def sql_lex_dec str)
  then show ?thesis
    unfolding sql_select_def
    by (cases "n < 0")
       (simp_all add: parse_eval where_cols_def task_cols_def task_filter_holds filter_opt_filter)
qed

lemma select_live_tasks_split:
  "sql_select ''tasks'' task_cols task_get rows
     (''SELECT * FROM tasks WHERE deleted_at IS NULL'' @ '' ORDER BY created_at DESC'') =
   Some (order_rows task_get (Some (''created_at'', True)) (filter (\<lambda>r. r_deleted_at r = None) rows))"
  using select_live_tasks [of rows] by simp

lemma Task_find_all_query:
  "Task_find_all d u s now =
     (case sql_select ''tasks'' task_cols task_get (tasks d)
        (''SELECT * FROM tasks WHERE deleted_at IS NULL'' @
         (if truthy u then '' AND user_id = '' @ py_str u else []) @
         (if truthy s then '' AND status = '' @ [sq] @ py_str s @ [sq] else []) @
         '' ORDER BY created_at DESC'') of
        None \<Rightarrow> Inl OperationalError
      | Some rows \<Rightarrow> collect (map (Task_from_row now) rows))"
  by (simp add: Task_find_all_def select_tasks_def Let_def split: option.split)

lemma Task_find_all_plain:
  assumes "plain x"
  shows "Task_find_all d (PyInt n) (PyStr x) now =
     collect (map (Task_from_row now)
       (order_rows task_get (Some (''created_at'', True))
         (filter (\<lambda>r. r_deleted_at r = None \<and> (n = 0 \<or> r_user_id r = Some n) \<and>
                      (x = [] \<or> r_status r = Some x)) (tasks d))))"
    and "Task_find_all d PyNone (PyStr x) now =
     collect (map (Task_from_row now)
       (order_rows task_get (Some (''created_at'', True))
         (filter (\<lambda>r. r_deleted_at r = None \<and> (x = [] \<or> r_status r = Some x)) (tasks d))))"
    and "Task_find_all d (PyInt n) PyNone now =
     collect (map (Task_from_row now)
       (order_rows task_get (Some (''created_at'', True))
         (filter (\<lambda>r. r_deleted_at r = None \<and> (n = 0 \<or> r_user_id r = Some n)) (tasks d))))"
proof -
  note sel = select_tasks_by_status [OF assms] select_tasks_by_user select_tasks_by_user_status [OF assms]
    select_live_tasks_split
  note pick = truthy.simps py_str.simps if_True if_False append_Nil append_assoc simp_thms
    option.case not_False_eq_True not_True_eq_False
  show "Task_find_all d (PyInt n) (PyStr x) now =
     collect (map (Task_from_row now)
       (order_rows task_get (Some (''created_at'', True))
         (filter (\<lambda>r. r_deleted_at r = None \<and> (n = 0 \<or> r_user_id r = Some n) \<and>
                      (x = [] \<or> r_status r = Some x)) (tasks d))))"
    unfolding Task_find_all_query
    by (cases "n = 0"; cases "x = []") (simp_all only: pick sel)
  show "Task_find_all d PyNone (PyStr x) now =
     collect (map (Task_from_row now)
       (order_rows task_get (Some (''created_at'', True))
         (filter (\<lambda>r. r_deleted_at r = None \<and> (x = [] \<or> r_status r = Some x)) (tasks d))))"
    unfolding Task_find_all_query
    by (cases "x = []") (simp_all only: pick sel)
  show "Task_find_all d (PyInt n) PyNone now =
     collect (map (Task_from_row now)
       (order_rows task_get (Some (''created_at'', True))
         (filter (\<lambda>r. r_deleted_at r = None \<and> (n = 0 \<or> r_user_id r = Some n)) (tasks d))))"
    unfolding Task_find_all_query
    by (cases "n = 0") (simp_all only: pick sel)
qed

subsection \<open>Filters with a quote\<close>

text \<open>
  C2, where the code fails. \<open>delete_task\<close> stamps \<open>deleted_at\<close> on the row of task 1 and
  keeps the row; \<open>find_by_id\<close> and \<open>find_all\<close> without filters no longer return the task
  (in general: \<open>delete_task_soft\<close>, \<open>Task_find_by_id_live\<close>, \<open>Task_find_all_plain\<close>).
  But \<open>find_all\<close> puts the status filter into the text of the query, and with the
  status \<^verbatim>\<open>' OR '1'='1\<close> the query is \<^verbatim>\<open>... WHERE deleted_at IS NULL AND
  status = '' OR '1'='1' ORDER BY ...\<close>, which selects every row: the soft-deleted
  tasks 1 and 2 are returned.
\<close>

theorem find_all_injection_returns_deleted:
  "(let d = sample_db\<lparr>tasks := (tasks sample_db)[0 := (tasks sample_db ! 0)\<lparr>r_deleted_at := Some ''98''\<rparr>]\<rparr>
    in delete_task sample_db 1 97 98 99 = Inr (True, d) \<and>
       Task_find_by_id d 1 100 = Inr None \<and>
       Task_find_all d PyNone PyNone 100 =
         Inr [\<lparr>tid = Some 6, title = VStr ''Refactor user service'',
               description = VStr ''Clean up legacy code'',
               status = VStr ''pending'', priority = VStr ''medium'',
               due_date = VTime 42, user_id = VNone, created_at = 12,
               updated_at = Some 12, deleted_at = None\<rparr>] \<and>
       Task_find_all d PyNone (PyStr injection) 100 =
         Inr [\<lparr>tid = Some 6, title = VStr ''Refactor user service'',
               description = VStr ''Clean up legacy code'',
               status = VStr ''pending'', priority = VStr ''medium'',
               due_date = VTime 42, user_id = VNone, created_at = 12,
               updated_at = Some 12, deleted_at = None\<rparr>,
              \<lparr>tid = Some 2, title = VStr ''Update documentation'',
               description = VStr ''Add API examples to README'',
               status = VStr ''pending'', priority = VStr ''medium'',
               due_date = VTime 45, user_id = VInt 2, created_at = 11,
               updated_at = Some 30, deleted_at = Some 30\<rparr>,
              \<lparr>tid = Some 1, title = VStr ''Fix login bug'',
               description = VStr ''Users cannot login with special characters'',
               status = VStr ''in_progress'', priority = VStr ''high'',
               due_date = VTime 40, user_id = VInt 1, created_at = 10,
               updated_at = Some 10, deleted_at = Some 98\<rparr>])"
  by code_simp

text \<open>
  C6, where the code fails. The finders put the filter text between quotes in the text
  of the query instead of binding it. With the text \<^verbatim>\<open>' OR '1'='1\<close> as username,
  email or API key, the lookup returns the first user, whose username, email and key
  are different; with \<^verbatim>\<open>O'Brien\<close> the query is not a statement and SQLite raises; as
  status filter the same text makes \<open>find_all\<close> return tasks of every status.
\<close>

theorem finders_interpolate_filter_text:
  "User_find_by_username sample_db injection 99 =
     Inr (Some \<lparr>uid = Some 1, username = Some ''john_doe'',
            email = Some ''john@example.com'',
            password_hash = ''abc123:5e88'', first_name = Some ''John'',
            last_name = Some ''Doe'', is_active = True, u_created_at = 10,
            u_updated_at = Some 10, last_login = None, api_key = None\<rparr>) \<and>
   User_find_by_email sample_db injection 99 = User_find_by_username sample_db injection 99 \<and>
   User_find_by_api_key sample_db injection 99 = User_find_by_username sample_db injection 99 \<and>
   User_find_by_username sample_db (''O'' @ [sq] @ ''Brien'') 99 = Inl OperationalError \<and>
   map_sum id (map tid) (Task_find_all sample_db PyNone (PyStr injection) 99) = Inr [Some 6, Some 2, Some 1] \<and>
   map_sum id (map tid) (Task_find_all sample_db PyNone (PyStr ''pending'') 99) = Inr [Some 6]"
  by code_simp

section \<open>Users\<close>

lemma create_user_eq:
  assumes "d_username data = Val un" "d_email data = Val em" "d_password data = Val pw"
  shows "create_user H salt d data now now' =
    (case User_save d
       \<lparr>uid = None, username = Some un, email = Some em,
        password_hash = salt @ '':'' @ H (pw @ salt),
        first_name = param (Some []) (d_first_name data),
        last_name = param (Some []) (d_last_name data), is_active = True,
        u_created_at = now, u_updated_at = None, last_login = None, api_key = None\<rparr> now' of
       Inl e \<Rightarrow> Inl e
     | Inr (saved, d') \<Rightarrow> Inr (User_to_dict saved, d'))"
  using assms
  by (simp add: create_user_def UserCreate_init_def User_init_def set_password_def)

lemma create_user_raises:
  assumes "(\<exists>r \<in> set (users d). d_username data = Val (ur_username r)) \<or>
           (\<exists>r \<in> set (users d). d_email data = Val (ur_email r))"
  shows "\<exists>e. create_user H salt d data now now' = Inl e \<and>
           ((\<exists>un em pw. d_username data = Val un \<and> d_email data = Val em \<and> d_password data = Val pw)
              \<longrightarrow> e = IntegrityError Unique)"
proof (cases "\<exists>un em pw. d_username data = Val un \<and> d_email data = Val em \<and> d_password data = Val pw")
  case True
  then obtain un em pw where v: "d_username data = Val un" "d_email data = Val em" "d_password data = Val pw"
    by blast
  with assms have "\<exists>r \<in> set (users d). ur_username r = un \<or> ur_email r = em"
    by auto
  then have "create_user H salt d data now now' = Inl (IntegrityError Unique)"
    by (simp add: create_user_eq [OF v] User_save_def id_set_def)
  then show ?thesis
    by simp
next
  case False
  have "\<exists>e. create_user H salt d data now now' = Inl e"
  proof (cases "d_username data")
    case Missing
    then show ?thesis by (simp add: create_user_def UserCreate_init_def)
  next
    case Null
    then show ?thesis
      by (cases "d_email data"; cases "d_password data")
         (simp_all add: create_user_def UserCreate_init_def User_init_def set_password_def
            User_save_def id_set_def)
  next
    case (Val un)
    show ?thesis
    proof (cases "d_email data")
      case Missing
      with Val show ?thesis by (simp add: create_user_def UserCreate_init_def)
    next
      case Null
      with Val show ?thesis
        by (cases "d_password data")
           (simp_all add: create_user_def UserCreate_init_def User_init_def set_password_def
              User_save_def id_set_def)
    next
      case (Val em)
      with \<open>d_username data = Val un\<close> False show ?thesis
        by (cases "d_password data") (simp_all add: create_user_def UserCreate_init_def)
    qed
  qed
  with False show ?thesis
    by blast
qed

lemma User_save_insert_fresh:
  assumes "uid u = None" "User_save d u now = Inr (saved, d')"
  shows "\<exists>row. users d' = users d @ [row] \<and> Some (ur_username row) = username u \<and>
           Some (ur_email row) = email u \<and>
           \<not> (\<exists>r \<in> set (users d). ur_username r = ur_username row \<or> ur_email r = ur_email row)"
  using assms
  by (auto simp: User_save_def id_set_def Let_def split: option.splits if_splits)

lemma create_user_saved:
  assumes "create_user H salt d data now now' = Inr (res, d')"
  shows "\<exists>u saved. uid u = None \<and> User_save d u now' = Inr (saved, d') \<and> res = User_to_dict saved"
proof -
  from assms obtain ud where ud: "UserCreate_init data = Inr ud"
    by (auto simp: create_user_def split: sum.splits)
  with assms obtain pw where pw: "uc_password ud = Some pw"
    by (auto simp: create_user_def Let_def split: option.splits)
  let ?u = "set_password H salt pw
              ((User_init now)\<lparr>username := uc_username ud, email := uc_email ud,
                 first_name := uc_first_name ud, last_name := uc_last_name ud,
                 is_active := uc_is_active ud\<rparr>)"
  from assms ud pw have "\<exists>saved. User_save d ?u now' = Inr (saved, d') \<and> res = User_to_dict saved"
    by (auto simp: create_user_def Let_def split: sum.splits prod.splits)
  moreover have "uid ?u = None"
    by (simp add: set_password_def User_init_def)
  ultimately show ?thesis
    by blast
qed

lemma create_user_stores_fresh:
  assumes "create_user H salt d data now now' = Inr (res, d')"
  shows "\<exists>row. users d' = users d @ [row] \<and>
           \<not> (\<exists>r \<in> set (users d). ur_username r = ur_username row \<or> ur_email r = ur_email row)"
proof -
  from create_user_saved [OF assms] obtain u saved
    where "uid u = None" "User_save d u now' = Inr (saved, d')"
    by blast
  from User_save_insert_fresh [OF this] show ?thesis
    by blast
qed

text \<open>
  C5, as the code has it. When the username or the email of the payload is that of a
  stored user, \<open>create_user\<close> raises: with a payload that is complete otherwise it is
  the \<open>IntegrityError\<close> that SQLite raises in \<open>User.save\<close> for the \<open>UNIQUE\<close> constraint
  (with an incomplete one, the \<open>TypeError\<close> or the \<open>NOT NULL\<close> error that comes first);
  nothing is stored. And whenever \<open>create_user\<close> does store a row, no stored user has
  its username or its email: there is never a duplicate row.
\<close>

theorem create_user_duplicate:
  "((\<exists>r \<in> set (users d). d_username data = Val (ur_username r)) \<or>
    (\<exists>r \<in> set (users d). d_email data = Val (ur_email r)) \<longrightarrow>
      (\<exists>e. create_user H salt d data now now' = Inl e \<and>
         ((\<exists>un em pw. d_username data = Val un \<and> d_email data = Val em \<and> d_password data = Val pw)
            \<longrightarrow> e = IntegrityError Unique))) \<and>
   (create_user H salt d data now now' = Inr (res, d') \<longrightarrow>
      (\<exists>row. users d' = users d @ [row] \<and>
         \<not> (\<exists>r \<in> set (users d). ur_username r = ur_username row \<or> ur_email r = ur_email row)))"
  using create_user_raises [of d data H salt now now'] create_user_stores_fresh [of H salt d data now now' res d']
  by blast

theorem create_user_duplicate_witness:
  "(\<exists>r \<in> set (users sample_db). Val ''john_doe'' = Val (ur_username r)) \<and>
   create_user rev ''a1b2'' sample_db
     \<lparr>d_username = Val ''john_doe'', d_email = Val ''new@example.com'', d_password = Val ''pw'',
      d_first_name = Missing, d_last_name = Missing\<rparr> 98 99 = Inl (IntegrityError Unique)"
  using create_user_duplicate [of sample_db
     "\<lparr>d_username = Val ''john_doe'', d_email = Val ''new@example.com'', d_password = Val ''pw'',
      d_first_name = Missing, d_last_name = Missing\<rparr>" rev "''a1b2''" 98 99]
  by (auto simp: sample_db_def)

text \<open>
  C5, as the claim states it, fails: the code has no handler for the failure. For the
  username of a stored user (and likewise for a stored email), \<open>create_user\<close> ends with
  the exception that \<open>User.save\<close> got from SQLite, passed on as it is:
  \<open>sqlite3.IntegrityError\<close>, the class that a \<open>NOT NULL\<close> violation raises as well.
  Neither \<open>create_user\<close> nor the route that calls it catches it or turns it into a
  Conflict.
\<close>

theorem create_user_conflict_unhandled_counterexample:
  "create_user rev ''a1b2'' sample_db
     \<lparr>d_username = Val ''john_doe'', d_email = Val ''new@example.com'', d_password = Val ''pw'',
      d_first_name = Missing, d_last_name = Missing\<rparr> 98 99 = Inl (IntegrityError Unique) \<and>
   User_save sample_db
     (set_password rev ''a1b2'' ''pw''
        ((User_init 98)\<lparr>username := Some ''john_doe'', email := Some ''new@example.com''\<rparr>)) 99 =
     Inl (IntegrityError Unique) \<and>
   create_user rev ''a1b2'' sample_db
     \<lparr>d_username = Val ''jim'', d_email = Val ''jane@example.com'', d_password = Val ''pw'',
      d_first_name = Missing, d_last_name = Missing\<rparr> 98 99 = Inl (IntegrityError Unique) \<and>
   create_user rev ''a1b2'' sample_db
     \<lparr>d_username = Null, d_email = Val ''new@example.com'', d_password = Val ''pw'',
      d_first_name = Missing, d_last_name = Missing\<rparr> 98 99 = Inl (IntegrityError NotNull)"
  by code_simp

lemma User_to_dict_keys:
  "keys (User_to_dict u) =
     [''id'', ''username'', ''email'', ''first_name'', ''last_name'', ''is_active'',
      ''created_at'', ''updated_at'', ''last_login'']"
  by (simp add: keys_def User_to_dict_def)

lemma get_user_dict:
  "get_user d i now = Inr (Some res) \<Longrightarrow> \<exists>u. res = User_to_dict u"
  by (auto simp: get_user_def split: sum.splits)

lemma get_users_dicts:
  "get_users d now = Inr rs \<Longrightarrow> \<forall>res \<in> set rs. \<exists>u. res = User_to_dict u"
  by (auto simp: get_users_def split: sum.splits)

text \<open>
  C9. The representation that \<open>to_dict\<close> gives of a User has exactly nine keys;
  \<open>api_key\<close> and \<open>password_hash\<close> are not among them, and the representation is the same
  after \<open>generate_api_key\<close>. So what \<open>create_user\<close>, \<open>get_user\<close> and \<open>get_users\<close> return
  holds no \<open>api_key\<close> and no \<open>password_hash\<close>.
\<close>

theorem user_representation_hides_api_key:
  "keys (User_to_dict u) =
     [''id'', ''username'', ''email'', ''first_name'', ''last_name'', ''is_active'',
      ''created_at'', ''updated_at'', ''last_login''] \<and>
   ''api_key'' \<notin> set (keys (User_to_dict u)) \<and>
   ''password_hash'' \<notin> set (keys (User_to_dict u)) \<and>
   User_to_dict (snd (generate_api_key token u)) = User_to_dict u \<and>
   (create_user H salt d data now now' = Inr (res, d') \<longrightarrow>
      ''api_key'' \<notin> set (keys res) \<and> ''password_hash'' \<notin> set (keys res)) \<and>
   (get_user d i now = Inr (Some res') \<longrightarrow>
      ''api_key'' \<notin> set (keys res') \<and> ''password_hash'' \<notin> set (keys res')) \<and>
   (get_users d now = Inr rs \<longrightarrow>
      (\<forall>x \<in> set rs. ''api_key'' \<notin> set (keys x) \<and> ''password_hash'' \<notin> set (keys x)))"
proof (intro conjI impI)
  show "keys (User_to_dict u) =
     [''id'', ''username'', ''email'', ''first_name'', ''last_name'', ''is_active'',
      ''created_at'', ''updated_at'', ''last_login'']"
    by (rule User_to_dict_keys)
  show "''api_key'' \<notin> set (keys (User_to_dict u))"
    by (simp add: User_to_dict_keys)
  show "''password_hash'' \<notin> set (keys (User_to_dict u))"
    by (simp add: User_to_dict_keys)
  show "User_to_dict (snd (generate_api_key token u)) = User_to_dict u"
    by (simp add: generate_api_key_def User_to_dict_def)
next
  assume "create_user H salt d data now now' = Inr (res, d')"
  from create_user_saved [OF this] obtain saved where "res = User_to_dict saved"
    by blast
  then show "''api_key'' \<notin> set (keys res)" "''password_hash'' \<notin> set (keys res)"
    by (simp_all add: User_to_dict_keys)
next
  assume "get_user d i now = Inr (Some res')"
  from get_user_dict [OF this] obtain v where "res' = User_to_dict v"
    by blast
  then show "''api_key'' \<notin> set (keys res')" "''password_hash'' \<notin> set (keys res')"
    by (simp_all add: User_to_dict_keys)
next
  assume "get_users d now = Inr rs"
  from get_users_dicts [OF this]
  show "\<forall>x \<in> set rs. ''api_key'' \<notin> set (keys x) \<and> ''password_hash'' \<notin> set (keys x)"
    by (auto simp: User_to_dict_keys)
qed

lemma get_users_sample:
  "get_users sample_db 99 =
     Inr [[(''id'', PyInt 1), (''username'', PyStr ''john_doe''),
           (''email'', PyStr ''john@example.com''),
           (''first_name'', PyStr ''John''), (''last_name'', PyStr ''Doe''),
           (''is_active'', PyBool True), (''created_at'', PyStr ''10''),
           (''updated_at'', PyStr ''10''), (''last_login'', PyNone)],
          [(''id'', PyInt 2), (''username'', PyStr ''jane_smith''),
           (''email'', PyStr ''jane@example.com''),
           (''first_name'', PyStr ''Jane''), (''last_name'', PyStr ''Smith''),
           (''is_active'', PyBool True), (''created_at'', PyStr ''10''),
           (''updated_at'', PyStr ''10''), (''last_login'', PyNone)]]"
  by code_simp

lemma get_user_sample:
  "get_user sample_db 2 99 =
     Inr (Some [(''id'', PyInt 2), (''username'', PyStr ''jane_smith''),
           (''email'', PyStr ''jane@example.com''),
           (''first_name'', PyStr ''Jane''), (''last_name'', PyStr ''Smith''),
           (''is_active'', PyBool True), (''created_at'', PyStr ''10''),
           (''updated_at'', PyStr ''10''), (''last_login'', PyNone)])"
  by code_simp

theorem user_representation_hides_api_key_witness:
  "ur_api_key (users sample_db ! 1) = Some ''k9'' \<and>
   get_user sample_db 2 99 =
     Inr (Some [(''id'', PyInt 2), (''username'', PyStr ''jane_smith''),
           (''email'', PyStr ''jane@example.com''),
           (''first_name'', PyStr ''Jane''), (''last_name'', PyStr ''Smith''),
           (''is_active'', PyBool True), (''created_at'', PyStr ''10''),
           (''updated_at'', PyStr ''10''), (''last_login'', PyNone)]) \<and>
   ''api_key'' \<notin> set (keys [(''id'', PyInt 2), (''username'', PyStr ''jane_smith''),
           (''email'', PyStr ''jane@example.com''),
           (''first_name'', PyStr ''Jane''), (''last_name'', PyStr ''Smith''),
           (''is_active'', PyBool True), (''created_at'', PyStr ''10''),
           (''updated_at'', PyStr ''10''), (''last_login'', PyNone)])"
  using get_user_sample
    user_representation_hides_api_key [where d = sample_db and i = 2 and now = 99 and res' =
      "[(''id'', PyInt 2), (''username'', PyStr ''jane_smith''),
           (''email'', PyStr ''jane@example.com''),
           (''first_name'', PyStr ''Jane''), (''last_name'', PyStr ''Smith''),
           (''is_active'', PyBool True), (''created_at'', PyStr ''10''),
           (''updated_at'', PyStr ''10''), (''last_login'', PyNone)]"]
  by (simp add: sample_db_def)

end
